theory Spec2Isabelle
  imports Main
begin

section \<open>Data model of replay\_computation.cc\<close>

text \<open>
  The tool replays an \<open>HloSnapshot\<close> against an XLA client. The client, the protobuf
  messages and the literal and shape utilities are collaborators declared outside
  the file; they appear here as plain data and as the fields of a record of
  functions (\<open>World\<close>), so that every statement below holds for whatever those
  collaborators do.

  A \<open>StatusOr<T>\<close> is the sum \<open>string + T\<close>: \<open>Inl msg\<close> is a non-OK status with its
  message, \<open>Inr v\<close> the value. A C++ \<open>int\<close> option is an \<open>int\<close>: the two loops count
  upwards from 0 to the option's value and never overflow.
\<close>

type_synonym 'a StatusOr = "string + 'a"

datatype Status = OK | Error string

text \<open>A fatal check (\<open>CHECK\<close>, \<open>TF_CHECK_OK\<close>, \<open>...OrDie\<close>) ends the whole process.\<close>

datatype 'a Outcome = Aborted string | Returned 'a

text \<open>Opaque values: a shape is identified by its content, a device handle by a number.\<close>

datatype Shape = Shape string

datatype GlobalData = GlobalData nat

datatype Literal = Literal (literal_shape: Shape) (ToString: string)

datatype LiteralProto = LiteralProto (proto_shape: Shape) (proto_data: string)

record HloInstructionProto =
  opcode :: string
  shape :: Shape

record HloComputationProto =
  instructions :: "HloInstructionProto list"

text \<open>
  Modelled from the spec: the declaration of the module proto is not part of the
  file. \<open>parameters\<close> holds the shapes of the program's declared (unbound)
  parameters, which the spec's data model speaks of; the file itself never reads it.
\<close>

record HloModuleProto =
  name :: string
  computations :: "HloComputationProto list"
  parameters :: "Shape list"

record HloProto =
  hlo_module :: HloModuleProto

text \<open>\<open>has_result()\<close> of the snapshot is \<open>result s \<noteq> None\<close>.\<close>

record HloSnapshot =
  hlo :: HloProto
  arguments :: "LiteralProto list"
  result :: "LiteralProto option"

datatype XlaComputation = XlaComputation (proto: HloModuleProto)

record ExecutionOptions =
  xla_hlo_profile :: bool

record ExecutionProfile =
  compute_time_ns :: int

record Options =
  fake_infeed_shape :: string
  generate_fake_infeed :: bool
  num_infeeds :: int
  use_fake_data :: bool
  print_result :: bool
  num_runs :: int
  xla_hlo_profile_last_run :: bool

text \<open>
  Every call to a collaborator that has an effect, with its arguments and its
  answer, and the two \<open>LOG(INFO)\<close> lines of the file. The calls made so far are the
  state of the client: its answer to a call may depend on them.
\<close>

datatype Event =
    ReadBinaryProtoCall string "HloSnapshot StatusOr"
  | LoadSnapshotCall HloSnapshot "XlaComputation StatusOr"
  | MakeFakeArgumentsOrDieCall XlaComputation "GlobalData list option"
  | TransferToServerCall Literal "GlobalData StatusOr"
  | MakeFakeLiteralCall Shape "Literal StatusOr"
  | TransferToInfeedCall Literal Status
  | ExecuteAndTransferCall XlaComputation "GlobalData list" ExecutionOptions
      "(Literal \<times> ExecutionProfile) StatusOr"
  | ExecuteCall XlaComputation "GlobalData list" ExecutionOptions
      "(GlobalData \<times> ExecutionProfile) StatusOr"
  | LogFakeInfeedShape string
  | LogExecutionTook int
  | DestroyLocalInstancesCall

text \<open>
  The collaborators. Those of the client take the calls made so far.
  \<open>MakeFakeArgumentsOrDie\<close> answers \<open>None\<close> when it dies.
  \<open>HloOpcodeString_kInfeed\<close> is the string \<open>HloOpcodeString(HloOpcode::kInfeed)\<close>.
\<close>

record World =
  ReadBinaryProto :: "string \<Rightarrow> HloSnapshot StatusOr"
  LoadSnapshot :: "Event list \<Rightarrow> HloSnapshot \<Rightarrow> XlaComputation StatusOr"
  MakeFakeArgumentsOrDie :: "Event list \<Rightarrow> XlaComputation \<Rightarrow> GlobalData list option"
  CreateFromProto :: "LiteralProto \<Rightarrow> Literal StatusOr"
  TransferToServer :: "Event list \<Rightarrow> Literal \<Rightarrow> GlobalData StatusOr"
  ParseShapeString :: "string \<Rightarrow> Shape StatusOr"
  HumanString :: "Shape \<Rightarrow> string"
  HloOpcodeString_kInfeed :: string
  MakeFakeLiteral :: "Shape \<Rightarrow> Literal StatusOr"
  TransferToInfeed :: "Event list \<Rightarrow> Literal \<Rightarrow> Status"
  CreateDefaultExecutionOptions :: ExecutionOptions
  ExecuteAndTransfer :: "Event list \<Rightarrow> XlaComputation \<Rightarrow> GlobalData list \<Rightarrow>
      ExecutionOptions \<Rightarrow> (Literal \<times> ExecutionProfile) StatusOr"
  Execute :: "Event list \<Rightarrow> XlaComputation \<Rightarrow> GlobalData list \<Rightarrow>
      ExecutionOptions \<Rightarrow> (GlobalData \<times> ExecutionProfile) StatusOr"

definition EXIT_SUCCESS :: int where
  "EXIT_SUCCESS = 0"

definition EXIT_FAILURE :: int where
  "EXIT_FAILURE = 1"

section \<open>ReplayComputation\<close>

subsection \<open>Arguments (lines 88 to 99)\<close>

text \<open>
  The loop over \<open>module.arguments()\<close>: each proto is turned into a literal and
  transferred to the server; the first failure is returned. \<open>args\<close> is the vector
  built so far, \<open>h\<close> the calls made before; the result carries the calls made here.
\<close>

fun TransferArguments ::
  "World \<Rightarrow> LiteralProto list \<Rightarrow> GlobalData list \<Rightarrow> Event list \<Rightarrow>
   (GlobalData list) StatusOr \<times> Event list" where
  "TransferArguments w [] args h = (Inr args, [])"
| "TransferArguments w (p # ps) args h =
     (case CreateFromProto w p of
        Inl e \<Rightarrow> (Inl e, [])
      | Inr literal \<Rightarrow>
          (case TransferToServer w h literal of
             Inl e \<Rightarrow> (Inl e, [TransferToServerCall literal (Inl e)])
           | Inr d \<Rightarrow>
               (case TransferArguments w ps (args @ [d])
                       (h @ [TransferToServerCall literal (Inr d)]) of
                  (r, tr) \<Rightarrow> (r, TransferToServerCall literal (Inr d) # tr))))"

definition MakeArguments ::
  "World \<Rightarrow> HloSnapshot \<Rightarrow> Options \<Rightarrow> XlaComputation \<Rightarrow> Event list \<Rightarrow>
   ((GlobalData list) StatusOr) Outcome \<times> Event list" where
  "MakeArguments w module opts computation h =
     (if use_fake_data opts then
        (case MakeFakeArgumentsOrDie w h computation of
           None \<Rightarrow> (Aborted ''MakeFakeArgumentsOrDie'',
                     [MakeFakeArgumentsOrDieCall computation None])
         | Some args \<Rightarrow> (Returned (Inr args),
                     [MakeFakeArgumentsOrDieCall computation (Some args)]))
      else
        (case TransferArguments w (arguments module) [] h of
           (r, tr) \<Rightarrow> (Returned r, tr)))"

subsection \<open>The infeed decision (lines 101 to 123)\<close>

text \<open>
  The state of the scan is the pair of the two local variables \<open>provide_infeed\<close> and
  \<open>infeed_shape\<close>. A second infeed instruction fails the \<open>CHECK\<close>.
\<close>

definition default_Shape :: Shape where
  "default_Shape = Shape []"

definition CHECK_infeed_message :: string where
  "CHECK_infeed_message =
     ''--generate_fake_infeed only works if the model has 0 or 1 infeed ops, but this one has >= 2.''"

fun ScanInstructions ::
  "World \<Rightarrow> HloInstructionProto list \<Rightarrow> bool \<times> Shape \<Rightarrow> (bool \<times> Shape) Outcome \<times> Event list" where
  "ScanInstructions w [] st = (Returned st, [])"
| "ScanInstructions w (instruction # rest) (provide_infeed, infeed_shape) =
     (if opcode instruction = HloOpcodeString_kInfeed w then
        (if provide_infeed then (Aborted CHECK_infeed_message, [])
         else
           (case ScanInstructions w rest (True, shape instruction) of
              (r, tr) \<Rightarrow> (r, LogFakeInfeedShape (HumanString w (shape instruction)) # tr)))
      else ScanInstructions w rest (provide_infeed, infeed_shape))"

fun ScanComputations ::
  "World \<Rightarrow> HloComputationProto list \<Rightarrow> bool \<times> Shape \<Rightarrow> (bool \<times> Shape) Outcome \<times> Event list" where
  "ScanComputations w [] st = (Returned st, [])"
| "ScanComputations w (c # rest) st =
     (case ScanInstructions w (instructions c) st of
        (Aborted m, tr) \<Rightarrow> (Aborted m, tr)
      | (Returned st', tr) \<Rightarrow>
          (case ScanComputations w rest st' of (r, tr') \<Rightarrow> (r, tr @ tr')))"

definition InfeedDecision ::
  "World \<Rightarrow> Options \<Rightarrow> XlaComputation \<Rightarrow> (bool \<times> Shape) Outcome \<times> Event list" where
  "InfeedDecision w opts computation =
     (if fake_infeed_shape opts \<noteq> [] then
        (case ParseShapeString w (fake_infeed_shape opts) of
           Inl e \<Rightarrow> (Aborted e, [])
         | Inr s \<Rightarrow> (Returned (True, s), []))
      else if generate_fake_infeed opts then
        ScanComputations w (computations (proto computation)) (False, default_Shape)
      else (Returned (False, default_Shape), []))"

subsection \<open>The infeed worker (lines 128 to 146)\<close>

text \<open>
  The closure given to \<open>pool->Schedule\<close> captures \<open>opts\<close>, \<open>infeed_shape\<close> and the
  client. It runs on the pool's single thread, concurrently with the execution
  loop: \<open>ReplayComputation\<close> below reports which closures it scheduled, and
  \<open>InfeedWorker\<close> is what one closure does, in its own order, from the calls \<open>h\<close> it
  finds made. How its calls interleave with the main thread's is not modelled:
  the worker's calls are in the worker's own trace, the calling thread's in its own.
\<close>

datatype Task = InfeedTask Options Shape

function InfeedLoop ::
  "World \<Rightarrow> Options \<Rightarrow> Literal \<Rightarrow> int \<Rightarrow> Event list \<Rightarrow> unit Outcome \<times> Event list" where
  "InfeedLoop w opts data i h =
     (if i < num_infeeds opts then
        (case TransferToInfeed w h data of
           Error e \<Rightarrow> (Aborted e, [TransferToInfeedCall data (Error e)])
         | OK \<Rightarrow>
             (case InfeedLoop w opts data (i + 1) (h @ [TransferToInfeedCall data OK]) of
                (r, tr) \<Rightarrow> (r, TransferToInfeedCall data OK # tr)))
      else (Returned (), []))"
  by pat_completeness auto
termination
  by (relation "measure (\<lambda>(w, opts, data, i, h). nat (num_infeeds opts - i))") auto

declare InfeedLoop.simps [simp del]

definition InfeedWorker ::
  "World \<Rightarrow> Options \<Rightarrow> Shape \<Rightarrow> Event list \<Rightarrow> unit Outcome \<times> Event list" where
  "InfeedWorker w opts infeed_shape h =
     (case MakeFakeLiteral w infeed_shape of
        Inl e \<Rightarrow> (Aborted e, [MakeFakeLiteralCall infeed_shape (Inl e)])
      | Inr data \<Rightarrow>
          (case InfeedLoop w opts data 0 (h @ [MakeFakeLiteralCall infeed_shape (Inr data)]) of
             (r, tr) \<Rightarrow> (r, MakeFakeLiteralCall infeed_shape (Inr data) # tr)))"

fun RunTask :: "World \<Rightarrow> Task \<Rightarrow> Event list \<Rightarrow> unit Outcome \<times> Event list" where
  "RunTask w (InfeedTask opts infeed_shape) h = InfeedWorker w opts infeed_shape h"

text \<open>
  The pool is a local variable of \<open>ReplayComputation\<close> (line 128). Its destructor runs
  at every return that follows the scheduling and waits until the scheduled
  closures have run, one after the other on the single thread: a fatal check that
  fails in a closure (lines 135 and 143) ends the process before the function
  returns. \<open>JoinPool\<close> is that wait, from the calls made when the closures were
  scheduled.
\<close>

fun JoinPool :: "World \<Rightarrow> Task list \<Rightarrow> Event list \<Rightarrow> unit Outcome" where
  "JoinPool w [] h = Returned ()"
| "JoinPool w (t # ts) h =
     (case RunTask w t h of
        (Aborted m, tr) \<Rightarrow> Aborted m
      | (Returned u, tr) \<Rightarrow> JoinPool w ts (h @ tr))"

subsection \<open>The execution loop (lines 154 to 180)\<close>

definition RunOptions :: "World \<Rightarrow> Options \<Rightarrow> int \<Rightarrow> ExecutionOptions" where
  "RunOptions w opts i =
     (if xla_hlo_profile_last_run opts \<and> i = num_runs opts - 1
      then (CreateDefaultExecutionOptions w)\<lparr>xla_hlo_profile := True\<rparr>
      else CreateDefaultExecutionOptions w)"

function RunLoop ::
  "World \<Rightarrow> Options \<Rightarrow> XlaComputation \<Rightarrow> GlobalData list \<Rightarrow> int \<Rightarrow> Literal option \<Rightarrow>
   Event list \<Rightarrow> (Literal option) StatusOr \<times> Event list" where
  "RunLoop w opts computation execute_arguments i res h =
     (if i < num_runs opts then
        (if print_result opts then
           (case ExecuteAndTransfer w h computation execute_arguments (RunOptions w opts i) of
              Inl e \<Rightarrow>
                (Inl e, [ExecuteAndTransferCall computation execute_arguments
                           (RunOptions w opts i) (Inl e)])
            | Inr (lit, profile) \<Rightarrow>
                (case RunLoop w opts computation execute_arguments (i + 1) (Some lit)
                        (h @ [ExecuteAndTransferCall computation execute_arguments
                                (RunOptions w opts i) (Inr (lit, profile)),
                              LogExecutionTook (compute_time_ns profile)]) of
                   (r, tr) \<Rightarrow>
                     (r, ExecuteAndTransferCall computation execute_arguments
                           (RunOptions w opts i) (Inr (lit, profile))
                         # LogExecutionTook (compute_time_ns profile) # tr)))
         else
           (case Execute w h computation execute_arguments (RunOptions w opts i) of
              Inl e \<Rightarrow>
                (Inl e, [ExecuteCall computation execute_arguments
                           (RunOptions w opts i) (Inl e)])
            | Inr (d, profile) \<Rightarrow>
                (case RunLoop w opts computation execute_arguments (i + 1) res
                        (h @ [ExecuteCall computation execute_arguments
                                (RunOptions w opts i) (Inr (d, profile)),
                              LogExecutionTook (compute_time_ns profile)]) of
                   (r, tr) \<Rightarrow>
                     (r, ExecuteCall computation execute_arguments
                           (RunOptions w opts i) (Inr (d, profile))
                         # LogExecutionTook (compute_time_ns profile) # tr))))
      else (Inr res, []))"
  by pat_completeness auto
termination
  by (relation "measure (\<lambda>(w, opts, computation, execute_arguments, i, res, h).
        nat (num_runs opts - i))") auto

declare RunLoop.simps [simp del]

subsection \<open>The whole function\<close>

text \<open>
  The result is the returned \<open>StatusOr\<close> (or the abort), the closures scheduled on
  the pool, and the calls made on the calling thread. When the worker ends the
  process, the calls of the calling thread are those it makes if the abort does
  not come before them.
\<close>

definition ReplayComputation ::
  "World \<Rightarrow> HloSnapshot \<Rightarrow> Options \<Rightarrow> Event list \<Rightarrow>
   ((Literal option) StatusOr) Outcome \<times> Task list \<times> Event list" where
  "ReplayComputation w module opts h =
     (case LoadSnapshot w h module of
        Inl e \<Rightarrow> (Returned (Inl e), [], [LoadSnapshotCall module (Inl e)])
      | Inr computation \<Rightarrow>
          (let t1 = [LoadSnapshotCall module (Inr computation)] in
           case MakeArguments w module opts computation (h @ t1) of
             (Aborted m, t2) \<Rightarrow> (Aborted m, [], t1 @ t2)
           | (Returned (Inl e), t2) \<Rightarrow> (Returned (Inl e), [], t1 @ t2)
           | (Returned (Inr args), t2) \<Rightarrow>
               (case InfeedDecision w opts computation of
                  (Aborted m, t3) \<Rightarrow> (Aborted m, [], t1 @ t2 @ t3)
                | (Returned (provide_infeed, infeed_shape), t3) \<Rightarrow>
                    (let pool = (if provide_infeed then [InfeedTask opts infeed_shape] else []) in
                     case RunLoop w opts computation args 0 None (h @ t1 @ t2 @ t3) of
                       (r, t4) \<Rightarrow>
                         (case JoinPool w pool (h @ t1 @ t2 @ t3) of
                            Aborted m \<Rightarrow> (Aborted m, pool, t1 @ t2 @ t3 @ t4)
                          | Returned u \<Rightarrow> (Returned r, pool, t1 @ t2 @ t3 @ t4))))))"

section \<open>RealMain\<close>

text \<open>
  The lines printed, by their \<open>fprintf\<close>: the two on \<open>stderr\<close> and the two on
  \<open>stdout\<close>. \<open>render\<close> gives the stream (\<open>True\<close> for \<open>stderr\<close>) and the text.
\<close>

datatype Line =
    NotSnapshotLine string string
  | ErrorLine string string
  | ResultLine string string string string
  | WasLine string string

fun render :: "Line \<Rightarrow> bool \<times> string" where
  "render (NotSnapshotLine arg msg) =
     (True, arg @ '': is not HloSnapshot: '' @ msg @ ''.'' @ [CHR 0x0A])"
| "render (ErrorLine arg msg) = (True, arg @ '': error: '' @ msg @ [CHR 0x0A])"
| "render (ResultLine arg nm sh txt) =
     (False, arg @ '': '' @ nm @ '' :: '' @ sh @ '':'' @ txt @ [CHR 0x0A])"
| "render (WasLine sh txt) = (False, ''was '' @ sh @ '':'' @ txt @ [CHR 0x0A])"

text \<open>
  The loop over the files, from the exit status so far and the calls made so far.
  The result is the exit status (or the abort), the lines printed, the closures
  scheduled and the calls made.
\<close>

fun RealMainLoop ::
  "World \<Rightarrow> Options \<Rightarrow> string list \<Rightarrow> int \<Rightarrow> Event list \<Rightarrow>
   int Outcome \<times> Line list \<times> Task list \<times> Event list" where
  "RealMainLoop w opts [] exit_status h = (Returned exit_status, [], [], [])"
| "RealMainLoop w opts (arg # rest) exit_status h =
     (case ReadBinaryProto w arg of
        Inl e \<Rightarrow>
          (case RealMainLoop w opts rest exit_status (h @ [ReadBinaryProtoCall arg (Inl e)]) of
             (r, out, ts, tr) \<Rightarrow>
               (r, NotSnapshotLine arg e # out, ts, ReadBinaryProtoCall arg (Inl e) # tr))
      | Inr snapshot \<Rightarrow>
          (let t0 = [ReadBinaryProtoCall arg (Inr snapshot)] in
           case ReplayComputation w snapshot opts (h @ t0) of
             (Aborted m, ts1, t1) \<Rightarrow> (Aborted m, [], ts1, t0 @ t1)
           | (Returned (Inl e), ts1, t1) \<Rightarrow>
               (case RealMainLoop w opts rest EXIT_FAILURE (h @ t0 @ t1) of
                  (r, out, ts, tr) \<Rightarrow> (r, ErrorLine arg e # out, ts1 @ ts, t0 @ t1 @ tr))
           | (Returned (Inr None), ts1, t1) \<Rightarrow>
               (case RealMainLoop w opts rest exit_status (h @ t0 @ t1) of
                  (r, out, ts, tr) \<Rightarrow> (r, out, ts1 @ ts, t0 @ t1 @ tr))
           | (Returned (Inr (Some lit)), ts1, t1) \<Rightarrow>
               (let l1 = ResultLine arg (name (hlo_module (hlo snapshot)))
                           (HumanString w (literal_shape lit)) (ToString lit) in
                case result snapshot of
                  None \<Rightarrow>
                    (case RealMainLoop w opts rest exit_status (h @ t0 @ t1) of
                       (r, out, ts, tr) \<Rightarrow> (r, l1 # out, ts1 @ ts, t0 @ t1 @ tr))
                | Some p \<Rightarrow>
                    (case CreateFromProto w p of
                       Inl e \<Rightarrow> (Aborted e, [l1], ts1, t0 @ t1)
                     | Inr literal \<Rightarrow>
                         (case RealMainLoop w opts rest exit_status (h @ t0 @ t1) of
                            (r, out, ts, tr) \<Rightarrow>
                              (r, l1 # WasLine (HumanString w (proto_shape p)) (ToString literal) # out,
                               ts1 @ ts, t0 @ t1 @ tr))))))"

definition RealMain ::
  "World \<Rightarrow> Options \<Rightarrow> string list \<Rightarrow> int Outcome \<times> Line list \<times> Task list \<times> Event list" where
  "RealMain w opts args =
     (case RealMainLoop w opts args EXIT_SUCCESS [] of
        (Returned st, out, ts, tr) \<Rightarrow> (Returned st, out, ts, tr @ [DestroyLocalInstancesCall])
      | (Aborted m, out, ts, tr) \<Rightarrow> (Aborted m, out, ts, tr))"

section \<open>Notions used in the statements\<close>

text \<open>Kinds of events, and what an execute call hands back to the caller.\<close>

fun is_read :: "Event \<Rightarrow> bool" where
  "is_read (ReadBinaryProtoCall p r) = True"
| "is_read _ = False"

fun read_path :: "Event \<Rightarrow> string option" where
  "read_path (ReadBinaryProtoCall p r) = Some p"
| "read_path _ = None"

fun is_execute :: "Event \<Rightarrow> bool" where
  "is_execute (ExecuteAndTransferCall c a eo r) = True"
| "is_execute (ExecuteCall c a eo r) = True"
| "is_execute _ = False"

text \<open>
  The value an execute call retrieves: the literal of a successful
  \<open>ExecuteAndTransfer\<close>, nothing for \<open>Execute\<close>, which leaves the output on the device.
\<close>

fun execute_result :: "Event \<Rightarrow> Literal option" where
  "execute_result (ExecuteAndTransferCall c a eo (Inr (lit, profile))) = Some lit"
| "execute_result _ = None"

text \<open>
  A trace is sequential from the calls \<open>h\<close> when each of its calls carries the answer
  the collaborator gives after all the calls before it, those of the trace included:
  no call is made before the previous one has returned.
\<close>

fun answered :: "World \<Rightarrow> Event list \<Rightarrow> Event \<Rightarrow> bool" where
  "answered w h (ReadBinaryProtoCall p r) = (r = ReadBinaryProto w p)"
| "answered w h (LoadSnapshotCall m r) = (r = LoadSnapshot w h m)"
| "answered w h (MakeFakeArgumentsOrDieCall c r) = (r = MakeFakeArgumentsOrDie w h c)"
| "answered w h (TransferToServerCall l r) = (r = TransferToServer w h l)"
| "answered w h (MakeFakeLiteralCall s r) = (r = MakeFakeLiteral w s)"
| "answered w h (TransferToInfeedCall l r) = (r = TransferToInfeed w h l)"
| "answered w h (ExecuteAndTransferCall c a eo r) = (r = ExecuteAndTransfer w h c a eo)"
| "answered w h (ExecuteCall c a eo r) = (r = Execute w h c a eo)"
| "answered w h (LogFakeInfeedShape s) = True"
| "answered w h (LogExecutionTook n) = True"
| "answered w h DestroyLocalInstancesCall = True"

fun sequential :: "World \<Rightarrow> Event list \<Rightarrow> Event list \<Rightarrow> bool" where
  "sequential w h [] = True"
| "sequential w h (e # es) = (answered w h e \<and> sequential w (h @ [e]) es)"

text \<open>The arguments an execute call is made with.\<close>

fun arguments_of_call :: "Event \<Rightarrow> GlobalData list option" where
  "arguments_of_call (ExecuteAndTransferCall c a eo r) = Some a"
| "arguments_of_call (ExecuteCall c a eo r) = Some a"
| "arguments_of_call _ = None"

text \<open>The infeed instructions of a program, in the order of the scan.\<close>

definition infeed_instructions :: "World \<Rightarrow> XlaComputation \<Rightarrow> HloInstructionProto list" where
  "infeed_instructions w computation =
     filter (\<lambda>i. opcode i = HloOpcodeString_kInfeed w)
       (concat (map instructions (computations (proto computation))))"

section \<open>A concrete world\<close>

text \<open>
  One client and three snapshot files, to run the definitions on. The program of
  file \<open>a\<close> has one parameter and one infeed; that of file \<open>two\<close> has two infeeds;
  the client refuses to load that of file \<open>broken\<close>; no other file exists. The
  literal an execution returns tells how many executions came before it.
\<close>

definition demo_module :: HloModuleProto where
  "demo_module =
     \<lparr>name = ''m'',
      computations =
        [\<lparr>instructions =
            [\<lparr>opcode = ''parameter'', shape = Shape ''f32[]''\<rparr>,
             \<lparr>opcode = ''infeed'', shape = Shape ''f32[2]''\<rparr>]\<rparr>],
      parameters = [Shape ''f32[]'']\<rparr>"

definition demo_snapshot :: HloSnapshot where
  "demo_snapshot =
     \<lparr>hlo = \<lparr>hlo_module = demo_module\<rparr>,
      arguments = [LiteralProto (Shape ''f32[]'') ''1''],
      result = Some (LiteralProto (Shape ''f32[]'') ''2'')\<rparr>"

definition two_infeeds_module :: HloModuleProto where
  "two_infeeds_module =
     \<lparr>name = ''t'',
      computations =
        [\<lparr>instructions = [\<lparr>opcode = ''infeed'', shape = Shape ''f32[2]''\<rparr>]\<rparr>,
         \<lparr>instructions = [\<lparr>opcode = ''infeed'', shape = Shape ''f32[3]''\<rparr>]\<rparr>],
      parameters = []\<rparr>"

definition two_infeeds_snapshot :: HloSnapshot where
  "two_infeeds_snapshot =
     \<lparr>hlo = \<lparr>hlo_module = two_infeeds_module\<rparr>, arguments = [], result = None\<rparr>"

definition broken_snapshot :: HloSnapshot where
  "broken_snapshot =
     \<lparr>hlo = \<lparr>hlo_module = \<lparr>name = ''broken'', computations = [], parameters = []\<rparr>\<rparr>,
      arguments = [], result = None\<rparr>"

definition demo_World :: World where
  "demo_World =
     \<lparr>ReadBinaryProto = (\<lambda>p.
         if p = ''a'' then Inr demo_snapshot
         else if p = ''two'' then Inr two_infeeds_snapshot
         else if p = ''broken'' then Inr broken_snapshot
         else Inl ''No such file''),
      LoadSnapshot = (\<lambda>h m.
         if name (hlo_module (hlo m)) = ''broken'' then Inl ''cannot load''
         else Inr (XlaComputation (hlo_module (hlo m)))),
      MakeFakeArgumentsOrDie = (\<lambda>h c.
         Some (map (\<lambda>s. GlobalData (length h)) (parameters (proto c)))),
      CreateFromProto = (\<lambda>p.
         if proto_data p = [] then Inl ''no data''
         else Inr (Literal (proto_shape p) (proto_data p))),
      TransferToServer = (\<lambda>h l. Inr (GlobalData (length h))),
      ParseShapeString = (\<lambda>s. if s = ''f32[2]'' then Inr (Shape s) else Inl ''bad shape''),
      HumanString = (\<lambda>s. case s of Shape x \<Rightarrow> x),
      HloOpcodeString_kInfeed = ''infeed'',
      MakeFakeLiteral = (\<lambda>s. Inr (Literal s ''0'')),
      TransferToInfeed = (\<lambda>h l. OK),
      CreateDefaultExecutionOptions = \<lparr>xla_hlo_profile = False\<rparr>,
      ExecuteAndTransfer = (\<lambda>h c a eo.
         Inr (Literal (Shape ''f32[]'') (replicate (length (filter is_execute h)) (CHR ''x'')),
              \<lparr>compute_time_ns = 5\<rparr>)),
      Execute = (\<lambda>h c a eo. Inr (GlobalData (length h), \<lparr>compute_time_ns = 5\<rparr>))\<rparr>"

text \<open>The options of the tool's \<open>main\<close> before any flag is read, but for three runs.\<close>

definition demo_opts :: Options where
  "demo_opts =
     \<lparr>fake_infeed_shape = [], generate_fake_infeed = False, num_infeeds = 10,
      use_fake_data = False, print_result = True, num_runs = 3,
      xla_hlo_profile_last_run = False\<rparr>"

section \<open>Lemmas on the blocks of ReplayComputation\<close>

lemmas demo_defs = demo_World_def demo_snapshot_def demo_module_def demo_opts_def

lemma sequential_append:
  "sequential w h (xs @ ys) = (sequential w h xs \<and> sequential w (h @ xs) ys)"
  by (induction xs arbitrary: h) auto


lemma TransferArguments_events:
  "TransferArguments w ps args h = (r, tr) \<Longrightarrow> e \<in> set tr \<Longrightarrow> \<exists>l x. e = TransferToServerCall l x"
  by (induction ps arbitrary: args h r tr) (fastforce split: sum.splits prod.splits)+

lemma TransferArguments_sequential:
  "TransferArguments w ps args h = (r, tr) \<Longrightarrow> sequential w h tr"
  by (induction ps arbitrary: args h r tr) (fastforce split: sum.splits prod.splits)+

lemma MakeArguments_events:
  "MakeArguments w m opts c h = (r, tr) \<Longrightarrow> e \<in> set tr \<Longrightarrow> \<not> is_read e \<and> \<not> is_execute e"
  by (auto simp: MakeArguments_def split: if_splits option.splits prod.splits
           dest!: TransferArguments_events)

lemma MakeArguments_sequential:
  "MakeArguments w m opts c h = (r, tr) \<Longrightarrow> sequential w h tr"
  by (auto simp: MakeArguments_def split: if_splits option.splits prod.splits
           dest: TransferArguments_sequential)

lemma ScanInstructions_events:
  "ScanInstructions w is st = (r, tr) \<Longrightarrow> e \<in> set tr \<Longrightarrow> \<exists>s. e = LogFakeInfeedShape s"
  by (induction w "is" st arbitrary: r tr rule: ScanInstructions.induct)
     (fastforce split: if_splits prod.splits)+

lemma ScanComputations_events:
  "ScanComputations w cs st = (r, tr) \<Longrightarrow> e \<in> set tr \<Longrightarrow> \<exists>s. e = LogFakeInfeedShape s"
  by (induction cs arbitrary: st r tr)
     (fastforce split: prod.splits Outcome.splits dest: ScanInstructions_events)+

lemma InfeedDecision_events:
  "InfeedDecision w opts c = (r, tr) \<Longrightarrow> e \<in> set tr \<Longrightarrow> \<exists>s. e = LogFakeInfeedShape s"
  by (auto simp: InfeedDecision_def split: if_splits sum.splits dest: ScanComputations_events)

lemma logs_sequential:
  "(\<And>e. e \<in> set tr \<Longrightarrow> \<exists>s. e = LogFakeInfeedShape s) \<Longrightarrow> sequential w h tr"
  by (induction tr arbitrary: h) fastforce+


lemma RunLoop_done:
  "num_runs opts \<le> i \<Longrightarrow> RunLoop w opts c a i res h = (Inr res, [])"
  by (subst RunLoop.simps) simp

lemma RunLoop_sequential:
  "RunLoop w opts c a i res h = (r, tr) \<Longrightarrow> sequential w h tr"
proof (induction w opts c a i res h arbitrary: r tr rule: RunLoop.induct)
  case (1 w opts c a i res h)
  from "1.prems" show ?case
    by (subst (asm) RunLoop.simps)
       (auto split: if_splits sum.splits prod.splits dest: "1.IH")
qed

lemma RunLoop_events:
  "RunLoop w opts c a i res h = (r, tr) \<Longrightarrow> e \<in> set tr \<Longrightarrow> \<not> is_read e"
proof (induction w opts c a i res h arbitrary: r tr rule: RunLoop.induct)
  case (1 w opts c a i res h)
  from "1.prems" show ?case
    by (subst (asm) RunLoop.simps)
       (auto split: if_splits sum.splits prod.splits dest: "1.IH")
qed

lemma RunLoop_no_transfer:
  "RunLoop w opts c a i res h = (r, tr) \<Longrightarrow> \<not> print_result opts \<Longrightarrow>
     ExecuteAndTransferCall c' a' eo x \<notin> set tr"
proof (induction w opts c a i res h arbitrary: r tr rule: RunLoop.induct)
  case (1 w opts c a i res h)
  from "1.prems" show ?case
    by (subst (asm) RunLoop.simps)
       (auto split: if_splits sum.splits prod.splits dest: "1.IH")
qed

lemma RunLoop_no_result:
  "RunLoop w opts c a i res h = (Inr r, tr) \<Longrightarrow> \<not> print_result opts \<Longrightarrow> r = res"
proof (induction w opts c a i res h arbitrary: r tr rule: RunLoop.induct)
  case (1 w opts c a i res h)
  from "1.prems" show ?case
    by (subst (asm) RunLoop.simps)
       (auto split: if_splits sum.splits prod.splits dest: "1.IH")
qed


lemma RunLoop_ok:
  "\<forall>h c a eo. \<exists>x. ExecuteAndTransfer w h c a eo = Inr x \<Longrightarrow>
   \<forall>h c a eo. \<exists>x. Execute w h c a eo = Inr x \<Longrightarrow>
   i \<le> num_runs opts \<Longrightarrow>
     \<exists>r tr. RunLoop w opts c a i res h = (Inr r, tr) \<and>
       length (filter is_execute tr) = nat (num_runs opts - i) \<and>
       r = (if i < num_runs opts \<and> print_result opts
            then execute_result (last (filter is_execute tr)) else res)"
proof (induction w opts c a i res h rule: RunLoop.induct)
  case (1 w opts c a i res h)
  note ea = "1.prems"(1) and ex = "1.prems"(2)
  show ?case
  proof (cases "i < num_runs opts")
    case False
    then show ?thesis by (simp add: RunLoop_done)
  next
    case lt: True
    show ?thesis
    proof (cases "print_result opts")
      case True
      let ?eo = "RunOptions w opts i"
      obtain lit profile where
        call: "ExecuteAndTransfer w h c a ?eo = Inr (lit, profile)"
        using ea by (metis surj_pair)
      let ?e = "ExecuteAndTransferCall c a ?eo (Inr (lit, profile))"
      let ?h = "h @ [?e, LogExecutionTook (compute_time_ns profile)]"
      from "1.IH"(1)[OF lt True call refl ea ex] lt
      obtain r tr where
        rec: "RunLoop w opts c a (i + 1) (Some lit) ?h = (Inr r, tr)"
        and len: "length (filter is_execute tr) = nat (num_runs opts - (i + 1))"
        and res: "r = (if i + 1 < num_runs opts \<and> print_result opts
                       then execute_result (last (filter is_execute tr)) else Some lit)"
        by auto
      have whole: "RunLoop w opts c a i res h =
          (Inr r, ?e # LogExecutionTook (compute_time_ns profile) # tr)"
        using lt True call rec by (subst RunLoop.simps) simp
      have "filter is_execute tr = [] \<longleftrightarrow> length (filter is_execute tr) = 0"
        by simp
      also have "\<dots> \<longleftrightarrow> \<not> i + 1 < num_runs opts"
        unfolding len by auto
      finally have "filter is_execute tr = [] \<longleftrightarrow> \<not> i + 1 < num_runs opts" .
      then show ?thesis
        using whole len res lt True by (auto simp: nat_diff_distrib)
    next
      case False
      let ?eo = "RunOptions w opts i"
      obtain d profile where
        call: "Execute w h c a ?eo = Inr (d, profile)"
        using ex by (metis surj_pair)
      let ?e = "ExecuteCall c a ?eo (Inr (d, profile))"
      let ?h = "h @ [?e, LogExecutionTook (compute_time_ns profile)]"
      from "1.IH"(2)[OF lt False call refl ea ex] lt
      obtain r tr where
        rec: "RunLoop w opts c a (i + 1) res ?h = (Inr r, tr)"
        and len: "length (filter is_execute tr) = nat (num_runs opts - (i + 1))"
        and res: "r = res"
        using False by auto
      have whole: "RunLoop w opts c a i res h =
          (Inr r, ?e # LogExecutionTook (compute_time_ns profile) # tr)"
        using lt False call rec by (subst RunLoop.simps) simp
      show ?thesis
        using whole len res lt False by (auto simp: nat_diff_distrib)
    qed
  qed
qed


lemma execute_result_Some:
  "execute_result e = Some l \<Longrightarrow> \<exists>c a eo p. e = ExecuteAndTransferCall c a eo (Inr (l, p))"
  by (cases e rule: execute_result.cases) auto

lemma ReplayComputation_loop:
  assumes "LoadSnapshot w h module = Inr computation"
    and "MakeArguments w module opts computation (h @ [LoadSnapshotCall module (Inr computation)])
           = (Returned (Inr args), t2)"
    and "InfeedDecision w opts computation = (Returned (b, s), t3)"
    and "RunLoop w opts computation args 0 None
           (h @ LoadSnapshotCall module (Inr computation) # t2 @ t3) = (r, t4)"
    and "JoinPool w (if b then [InfeedTask opts s] else [])
           (h @ LoadSnapshotCall module (Inr computation) # t2 @ t3) = Returned ()"
  shows "ReplayComputation w module opts h =
           (Returned r, (if b then [InfeedTask opts s] else []),
            LoadSnapshotCall module (Inr computation) # t2 @ t3 @ t4)"
  using assms by (simp add: ReplayComputation_def Let_def)

lemma ReplayComputation_worker_died:
  assumes "LoadSnapshot w h module = Inr computation"
    and "MakeArguments w module opts computation (h @ [LoadSnapshotCall module (Inr computation)])
           = (Returned (Inr args), t2)"
    and "InfeedDecision w opts computation = (Returned (b, s), t3)"
    and "JoinPool w (if b then [InfeedTask opts s] else [])
           (h @ LoadSnapshotCall module (Inr computation) # t2 @ t3) = Aborted msg"
  shows "fst (ReplayComputation w module opts h) = Aborted msg"
  using assms by (simp add: ReplayComputation_def Let_def split: prod.splits)


section \<open>Lemmas on ReplayComputation and RealMain\<close>


lemma ReplayComputation_elim:
  assumes "ReplayComputation w m opts h = (out, ts, tr)"
  obtains
    (load_error) e where
      "LoadSnapshot w h m = Inl e" "out = Returned (Inl e)" "ts = []"
      "tr = [LoadSnapshotCall m (Inl e)]"
  | (arguments_died) c msg t2 where
      "LoadSnapshot w h m = Inr c"
      "MakeArguments w m opts c (h @ [LoadSnapshotCall m (Inr c)]) = (Aborted msg, t2)"
      "out = Aborted msg" "ts = []" "tr = LoadSnapshotCall m (Inr c) # t2"
  | (arguments_error) c e t2 where
      "LoadSnapshot w h m = Inr c"
      "MakeArguments w m opts c (h @ [LoadSnapshotCall m (Inr c)]) = (Returned (Inl e), t2)"
      "out = Returned (Inl e)" "ts = []" "tr = LoadSnapshotCall m (Inr c) # t2"
  | (check_failed) c args t2 msg t3 where
      "LoadSnapshot w h m = Inr c"
      "MakeArguments w m opts c (h @ [LoadSnapshotCall m (Inr c)]) = (Returned (Inr args), t2)"
      "InfeedDecision w opts c = (Aborted msg, t3)"
      "out = Aborted msg" "ts = []" "tr = LoadSnapshotCall m (Inr c) # t2 @ t3"
  | (loop) c args t2 b s t3 r t4 where
      "LoadSnapshot w h m = Inr c"
      "MakeArguments w m opts c (h @ [LoadSnapshotCall m (Inr c)]) = (Returned (Inr args), t2)"
      "InfeedDecision w opts c = (Returned (b, s), t3)"
      "RunLoop w opts c args 0 None (h @ LoadSnapshotCall m (Inr c) # t2 @ t3) = (r, t4)"
      "out = (case JoinPool w ts (h @ LoadSnapshotCall m (Inr c) # t2 @ t3) of
                Aborted msg \<Rightarrow> Aborted msg
              | Returned u \<Rightarrow> Returned r)"
      "ts = (if b then [InfeedTask opts s] else [])"
      "tr = LoadSnapshotCall m (Inr c) # t2 @ t3 @ t4"
proof -
  show ?thesis
  proof (cases "LoadSnapshot w h m")
    case (Inl e)
    with assms show ?thesis by (intro load_error[of e]) (auto simp: ReplayComputation_def)
  next
    case c: (Inr c)
    obtain o2 t2 where ma: "MakeArguments w m opts c (h @ [LoadSnapshotCall m (Inr c)]) = (o2, t2)"
      by (cases "MakeArguments w m opts c (h @ [LoadSnapshotCall m (Inr c)])") auto
    show ?thesis
    proof (cases o2)
      case (Aborted msg)
      with assms c ma show ?thesis
        by (intro arguments_died[of c msg t2]) (auto simp: ReplayComputation_def)
    next
      case (Returned st)
      show ?thesis
      proof (cases st)
        case (Inl e)
        with assms c ma Returned show ?thesis
          by (intro arguments_error[of c e t2]) (auto simp: ReplayComputation_def)
      next
        case args: (Inr args)
        obtain o3 t3 where dec: "InfeedDecision w opts c = (o3, t3)"
          by (cases "InfeedDecision w opts c") auto
        show ?thesis
        proof (cases o3)
          case (Aborted msg)
          with assms c ma Returned args dec show ?thesis
            by (intro check_failed[of c args t2 msg t3]) (auto simp: ReplayComputation_def)
        next
          case d: (Returned d)
          obtain b s where bs: "d = (b, s)" by (cases d)
          obtain r t4 where run:
            "RunLoop w opts c args 0 None (h @ LoadSnapshotCall m (Inr c) # t2 @ t3) = (r, t4)"
            by (cases "RunLoop w opts c args 0 None (h @ LoadSnapshotCall m (Inr c) # t2 @ t3)") auto
          from assms c ma Returned args dec d bs run show ?thesis
            by (intro loop[of c args t2 b s t3 r t4])
               (auto simp: ReplayComputation_def Let_def split: Outcome.splits)
        qed
      qed
    qed
  qed
qed

lemma ReplayComputation_no_read:
  assumes "ReplayComputation w m opts h = (out, ts, tr)" and "e \<in> set tr"
  shows "\<not> is_read e"
  using assms(1)
proof (cases rule: ReplayComputation_elim)
  case (load_error e)
  with assms(2) show ?thesis by auto
next
  case (arguments_died c msg t2)
  with assms(2) MakeArguments_events show ?thesis by auto
next
  case (arguments_error c e t2)
  with assms(2) MakeArguments_events show ?thesis by auto
next
  case (check_failed c args t2 msg t3)
  with assms(2) MakeArguments_events[of w m opts c _ _ t2 e] InfeedDecision_events[of w opts c _ t3 e]
  show ?thesis by auto
next
  case (loop c args t2 b s t3 r t4)
  with assms(2) MakeArguments_events[of w m opts c _ _ t2 e] InfeedDecision_events[of w opts c _ t3 e]
    RunLoop_events[of w opts c args 0 None _ r t4 e]
  show ?thesis by auto
qed

lemma ReplayComputation_no_transfer:
  assumes "ReplayComputation w m opts h = (out, ts, tr)" and "\<not> print_result opts"
  shows "ExecuteAndTransferCall c' a' eo x \<notin> set tr"
  using assms(1)
proof (cases rule: ReplayComputation_elim)
  case (load_error e)
  then show ?thesis by auto
next
  case (arguments_died c msg t2)
  with MakeArguments_events[of w m opts c _ _ t2 "ExecuteAndTransferCall c' a' eo x"]
  show ?thesis by auto
next
  case (arguments_error c e t2)
  with MakeArguments_events[of w m opts c _ _ t2 "ExecuteAndTransferCall c' a' eo x"]
  show ?thesis by auto
next
  case (check_failed c args t2 msg t3)
  with MakeArguments_events[of w m opts c _ _ t2 "ExecuteAndTransferCall c' a' eo x"]
    InfeedDecision_events[of w opts c _ t3 "ExecuteAndTransferCall c' a' eo x"]
  show ?thesis by auto
next
  case (loop c args t2 b s t3 r t4)
  with MakeArguments_events[of w m opts c _ _ t2 "ExecuteAndTransferCall c' a' eo x"]
    InfeedDecision_events[of w opts c _ t3 "ExecuteAndTransferCall c' a' eo x"]
    RunLoop_no_transfer[of w opts c args 0 None _ r t4, OF _ assms(2)]
  show ?thesis by auto
qed

lemma ReplayComputation_no_result:
  assumes "ReplayComputation w m opts h = (out, ts, tr)" and "\<not> print_result opts"
  shows "out \<noteq> Returned (Inr (Some l))"
  using assms(1)
proof (cases rule: ReplayComputation_elim)
  case (loop c args t2 b s t3 r t4)
  with RunLoop_no_result[of w opts c args 0 None _ _ t4, OF _ assms(2)]
  show ?thesis by (auto split: Outcome.splits)
qed auto


lemma RealMainLoop_elim:
  assumes "RealMainLoop w opts (arg # rest) st h = (r, out, ts, tr)"
  obtains
    (unreadable) e out' tr' where
      "ReadBinaryProto w arg = Inl e"
      "RealMainLoop w opts rest st (h @ [ReadBinaryProtoCall arg (Inl e)]) = (r, out', ts, tr')"
      "out = NotSnapshotLine arg e # out'" "tr = ReadBinaryProtoCall arg (Inl e) # tr'"
  | (aborted) snapshot msg t1 where
      "ReadBinaryProto w arg = Inr snapshot"
      "ReplayComputation w snapshot opts (h @ [ReadBinaryProtoCall arg (Inr snapshot)])
         = (Aborted msg, ts, t1)"
      "r = Aborted msg" "out = []" "tr = ReadBinaryProtoCall arg (Inr snapshot) # t1"
  | (failed) snapshot e ts1 t1 out' ts' tr' where
      "ReadBinaryProto w arg = Inr snapshot"
      "ReplayComputation w snapshot opts (h @ [ReadBinaryProtoCall arg (Inr snapshot)])
         = (Returned (Inl e), ts1, t1)"
      "RealMainLoop w opts rest EXIT_FAILURE (h @ ReadBinaryProtoCall arg (Inr snapshot) # t1)
         = (r, out', ts', tr')"
      "out = ErrorLine arg e # out'" "ts = ts1 @ ts'"
      "tr = ReadBinaryProtoCall arg (Inr snapshot) # t1 @ tr'"
  | (silent) snapshot ts1 t1 out' ts' tr' where
      "ReadBinaryProto w arg = Inr snapshot"
      "ReplayComputation w snapshot opts (h @ [ReadBinaryProtoCall arg (Inr snapshot)])
         = (Returned (Inr None), ts1, t1)"
      "RealMainLoop w opts rest st (h @ ReadBinaryProtoCall arg (Inr snapshot) # t1)
         = (r, out', ts', tr')"
      "out = out'" "ts = ts1 @ ts'"
      "tr = ReadBinaryProtoCall arg (Inr snapshot) # t1 @ tr'"
  | (printed) snapshot lit ts1 t1 out' ts' tr' where
      "ReadBinaryProto w arg = Inr snapshot"
      "ReplayComputation w snapshot opts (h @ [ReadBinaryProtoCall arg (Inr snapshot)])
         = (Returned (Inr (Some lit)), ts1, t1)"
      "result snapshot = None"
      "RealMainLoop w opts rest st (h @ ReadBinaryProtoCall arg (Inr snapshot) # t1)
         = (r, out', ts', tr')"
      "out = ResultLine arg (name (hlo_module (hlo snapshot)))
               (HumanString w (literal_shape lit)) (ToString lit) # out'"
      "ts = ts1 @ ts'"
      "tr = ReadBinaryProtoCall arg (Inr snapshot) # t1 @ tr'"
  | (expected_died) snapshot lit t1 p e where
      "ReadBinaryProto w arg = Inr snapshot"
      "ReplayComputation w snapshot opts (h @ [ReadBinaryProtoCall arg (Inr snapshot)])
         = (Returned (Inr (Some lit)), ts, t1)"
      "result snapshot = Some p" "CreateFromProto w p = Inl e"
      "r = Aborted e"
      "out = [ResultLine arg (name (hlo_module (hlo snapshot)))
               (HumanString w (literal_shape lit)) (ToString lit)]"
      "tr = ReadBinaryProtoCall arg (Inr snapshot) # t1"
  | (printed_was) snapshot lit ts1 t1 p literal out' ts' tr' where
      "ReadBinaryProto w arg = Inr snapshot"
      "ReplayComputation w snapshot opts (h @ [ReadBinaryProtoCall arg (Inr snapshot)])
         = (Returned (Inr (Some lit)), ts1, t1)"
      "result snapshot = Some p" "CreateFromProto w p = Inr literal"
      "RealMainLoop w opts rest st (h @ ReadBinaryProtoCall arg (Inr snapshot) # t1)
         = (r, out', ts', tr')"
      "out = ResultLine arg (name (hlo_module (hlo snapshot)))
               (HumanString w (literal_shape lit)) (ToString lit)
             # WasLine (HumanString w (proto_shape p)) (ToString literal) # out'"
      "ts = ts1 @ ts'"
      "tr = ReadBinaryProtoCall arg (Inr snapshot) # t1 @ tr'"
  using assms
  by (auto simp: Let_def split: sum.splits prod.splits Outcome.splits option.splits)


lemma read_path_None: "\<not> is_read e \<Longrightarrow> read_path e = None"
  by (cases e) auto

lemma map_filter_None: "(\<And>x. x \<in> set xs \<Longrightarrow> f x = None) \<Longrightarrow> List.map_filter f xs = []"
  by (induction xs) (auto simp: map_filter_simps)


lemma ReplayComputation_read_paths:
  "ReplayComputation w m opts h = (out, ts, tr) \<Longrightarrow> List.map_filter read_path tr = []"
  by (rule map_filter_None) (auto dest: ReplayComputation_no_read read_path_None)

lemma RealMainLoop_no_result_line:
  "\<not> print_result opts \<Longrightarrow> RealMainLoop w opts args st h = (r, out, ts, tr) \<Longrightarrow>
     ResultLine a n s t \<notin> set out"
proof (induction args arbitrary: st h r out ts tr)
  case Nil
  then show ?case by auto
next
  case (Cons arg rest)
  from Cons.prems(2) show ?case
  proof (cases rule: RealMainLoop_elim)
    case (printed snapshot lit ts1 t1 out' ts' tr')
    with ReplayComputation_no_result[OF printed(2) Cons.prems(1), of lit] show ?thesis by simp
  next
    case (expected_died snapshot lit t1 p e)
    with ReplayComputation_no_result[OF expected_died(2) Cons.prems(1), of lit] show ?thesis by simp
  next
    case (printed_was snapshot lit ts1 t1 p literal out' ts' tr')
    with ReplayComputation_no_result[OF printed_was(2) Cons.prems(1), of lit] show ?thesis by simp
  qed (use Cons.IH[OF Cons.prems(1)] in auto)
qed



lemma RunLoop_Execute_ok:
  "\<not> print_result opts \<Longrightarrow> \<forall>h c a eo. \<exists>x. Execute w h c a eo = Inr x \<Longrightarrow>
     \<exists>tr. RunLoop w opts c a i res h = (Inr res, tr)"
proof (induction w opts c a i res h rule: RunLoop.induct)
  case (1 w opts c a i res h)
  show ?case
  proof (cases "i < num_runs opts")
    case False
    then show ?thesis by (simp add: RunLoop_done)
  next
    case True
    obtain d profile where
      call: "Execute w h c a (RunOptions w opts i) = Inr (d, profile)"
      using "1.prems"(2) by (metis surj_pair)
    from "1.IH"(2)[OF True "1.prems"(1) call refl "1.prems"]
    obtain tr where "RunLoop w opts c a (i + 1) res
        (h @ [ExecuteCall c a (RunOptions w opts i) (Inr (d, profile)),
              LogExecutionTook (compute_time_ns profile)]) = (Inr res, tr)"
      by auto
    then show ?thesis
      using True "1.prems"(1) call by (subst RunLoop.simps) simp
  qed
qed


lemma RunLoop_Execute_calls:
  "\<not> print_result opts \<Longrightarrow> \<forall>h c a eo. \<exists>x. Execute w h c a eo = Inr x \<Longrightarrow>
     \<exists>tr. RunLoop w opts c a i res h = (Inr res, tr) \<and>
       length (filter is_execute tr) = nat (num_runs opts - i) \<and>
       (\<forall>k < nat (num_runs opts - i). \<exists>d p.
          filter is_execute tr ! k = ExecuteCall c a (RunOptions w opts (i + int k)) (Inr (d, p)))"
proof (induction w opts c a i res h rule: RunLoop.induct)
  case (1 w opts c a i res h)
  show ?case
  proof (cases "i < num_runs opts")
    case False
    then show ?thesis by (simp add: RunLoop_done)
  next
    case True
    obtain d profile where
      call: "Execute w h c a (RunOptions w opts i) = Inr (d, profile)"
      using "1.prems"(2) by (metis surj_pair)
    let ?e = "ExecuteCall c a (RunOptions w opts i) (Inr (d, profile))"
    from "1.IH"(2)[OF True "1.prems"(1) call refl "1.prems"]
    obtain tr where
      rec: "RunLoop w opts c a (i + 1) res
        (h @ [?e, LogExecutionTook (compute_time_ns profile)]) = (Inr res, tr)"
      and len: "length (filter is_execute tr) = nat (num_runs opts - (i + 1))"
      and each: "\<forall>k < nat (num_runs opts - (i + 1)). \<exists>d p.
          filter is_execute tr ! k = ExecuteCall c a (RunOptions w opts (i + 1 + int k)) (Inr (d, p))"
      by auto
    have whole: "RunLoop w opts c a i res h =
        (Inr res, ?e # LogExecutionTook (compute_time_ns profile) # tr)"
      using True "1.prems"(1) call rec by (subst RunLoop.simps) simp
    have n: "nat (num_runs opts - i) = Suc (nat (num_runs opts - (i + 1)))"
      using True by simp
    have "\<forall>k < nat (num_runs opts - i). \<exists>d p.
          filter is_execute (?e # LogExecutionTook (compute_time_ns profile) # tr) ! k =
            ExecuteCall c a (RunOptions w opts (i + int k)) (Inr (d, p))"
    proof (intro allI impI)
      fix k assume k: "k < nat (num_runs opts - i)"
      show "\<exists>d p. filter is_execute (?e # LogExecutionTook (compute_time_ns profile) # tr) ! k =
            ExecuteCall c a (RunOptions w opts (i + int k)) (Inr (d, p))"
      proof (cases k)
        case 0
        then show ?thesis by simp
      next
        case (Suc k')
        with k n have "k' < nat (num_runs opts - (i + 1))" by simp
        with each obtain d' p' where
          "filter is_execute tr ! k' =
             ExecuteCall c a (RunOptions w opts (i + 1 + int k')) (Inr (d', p'))"
          by blast
        moreover have "i + 1 + int k' = i + int k" using Suc by simp
        ultimately show ?thesis using Suc by simp
      qed
    qed
    with whole len n show ?thesis by simp
  qed
qed

section \<open>Lemmas on the infeed worker\<close>


lemma InfeedLoop_done:
  "num_infeeds opts \<le> i \<Longrightarrow> InfeedLoop w opts data i h = (Returned (), [])"
  by (subst InfeedLoop.simps) simp

lemma InfeedLoop_ok:
  "\<forall>h. TransferToInfeed w h data = OK \<Longrightarrow>
     InfeedLoop w opts data i h =
       (Returned (), replicate (nat (num_infeeds opts - i)) (TransferToInfeedCall data OK))"
proof (induction w opts data i h rule: InfeedLoop.induct)
  case (1 w opts data i h)
  show ?case
  proof (cases "i < num_infeeds opts")
    case False
    then show ?thesis by (simp add: InfeedLoop_done)
  next
    case True
    have call: "TransferToInfeed w h data = OK" using "1.prems" by simp
    have n: "nat (num_infeeds opts - i) = Suc (nat (num_infeeds opts - (i + 1)))"
      using True by simp
    from "1.IH"[OF True call "1.prems"] show ?thesis
      using True call by (subst InfeedLoop.simps) (simp add: n)
  qed
qed

lemma InfeedLoop_returned:
  "InfeedLoop w opts data i h = (Returned u, tr) \<Longrightarrow>
     tr = replicate (nat (num_infeeds opts - i)) (TransferToInfeedCall data OK)"
proof (induction w opts data i h arbitrary: tr rule: InfeedLoop.induct)
  case (1 w opts data i h)
  show ?case
  proof (cases "i < num_infeeds opts")
    case False
    with "1.prems" show ?thesis by (simp add: InfeedLoop_done)
  next
    case True
    have n: "nat (num_infeeds opts - i) = Suc (nat (num_infeeds opts - (i + 1)))"
      using True by simp
    from "1.prems" True show ?thesis
      by (subst (asm) InfeedLoop.simps)
         (auto simp: n split: Status.splits prod.splits dest: "1.IH")
  qed
qed

lemma InfeedLoop_sequential:
  "InfeedLoop w opts data i h = (r, tr) \<Longrightarrow> sequential w h tr"
proof (induction w opts data i h arbitrary: r tr rule: InfeedLoop.induct)
  case (1 w opts data i h)
  from "1.prems" show ?case
    by (subst (asm) InfeedLoop.simps)
       (auto split: if_splits Status.splits prod.splits dest: "1.IH")
qed

lemma InfeedWorker_sequential:
  "InfeedWorker w opts s h = (r, tr) \<Longrightarrow> sequential w h tr"
  by (auto simp: InfeedWorker_def split: sum.splits prod.splits dest: InfeedLoop_sequential)

lemma ReplayComputation_tasks:
  assumes "LoadSnapshot w h module = Inr computation"
    and "MakeArguments w module opts computation (h @ [LoadSnapshotCall module (Inr computation)])
           = (Returned (Inr args), t2)"
    and "InfeedDecision w opts computation = (Returned (b, s), t3)"
  shows "fst (snd (ReplayComputation w module opts h)) = (if b then [InfeedTask opts s] else [])"
  using assms by (simp add: ReplayComputation_def Let_def split: prod.splits Outcome.splits)


section \<open>Lemmas on the infeed decision\<close>


lemma fst_case_prod_same: "fst (case p of (r, tr) \<Rightarrow> (r, f r tr)) = fst p"
  by (cases p) simp

lemma ScanInstructions_append:
  "fst (ScanInstructions w (xs @ ys) st) =
     (case fst (ScanInstructions w xs st) of
        Aborted m \<Rightarrow> Aborted m
      | Returned st' \<Rightarrow> fst (ScanInstructions w ys st'))"
  by (induction w xs st rule: ScanInstructions.induct) (simp_all add: fst_case_prod_same)

lemma ScanComputations_concat:
  "fst (ScanComputations w cs st) = fst (ScanInstructions w (concat (map instructions cs)) st)"
proof (induction cs arbitrary: st)
  case Nil
  show ?case by simp
next
  case (Cons c cs)
  obtain r tr where s1: "ScanInstructions w (instructions c) st = (r, tr)"
    by (cases "ScanInstructions w (instructions c) st") auto
  show ?case
  proof (cases r)
    case (Aborted m)
    with s1 show ?thesis by (simp add: ScanInstructions_append)
  next
    case (Returned st')
    with s1 Cons.IH[of st'] show ?thesis
      by (simp add: ScanInstructions_append fst_case_prod_same)
  qed
qed

lemma ScanInstructions_filter:
  "fst (ScanInstructions w xs st) =
     fst (ScanInstructions w (filter (\<lambda>i. opcode i = HloOpcodeString_kInfeed w) xs) st)"
  by (induction w xs st rule: ScanInstructions.induct) (simp_all add: fst_case_prod_same)

lemma ScanInstructions_infeeds:
  assumes "\<forall>i \<in> set xs. opcode i = HloOpcodeString_kInfeed w"
  shows "fst (ScanInstructions w xs (False, d)) =
     (case xs of
        [] \<Rightarrow> Returned (False, d)
      | [i] \<Rightarrow> Returned (True, shape i)
      | _ \<Rightarrow> Aborted CHECK_infeed_message)"
proof (cases xs)
  case Nil
  then show ?thesis by simp
next
  case (Cons i rest)
  show ?thesis
  proof (cases rest)
    case Nil
    with Cons assms show ?thesis by (simp split: prod.splits)
  next
    case (Cons j rest')
    with \<open>xs = i # rest\<close> assms show ?thesis by (simp split: prod.splits)
  qed
qed

lemma InfeedDecision_outcome:
  "fst (InfeedDecision w opts computation) =
     (if fake_infeed_shape opts \<noteq> [] then
        (case ParseShapeString w (fake_infeed_shape opts) of
           Inl e \<Rightarrow> Aborted e
         | Inr s \<Rightarrow> Returned (True, s))
      else if generate_fake_infeed opts then
        (case infeed_instructions w computation of
           [] \<Rightarrow> Returned (False, default_Shape)
         | [i] \<Rightarrow> Returned (True, shape i)
         | _ \<Rightarrow> Aborted CHECK_infeed_message)
      else Returned (False, default_Shape))"
proof -
  have "fst (ScanComputations w (computations (proto computation)) (False, default_Shape)) =
      (case infeed_instructions w computation of
           [] \<Rightarrow> Returned (False, default_Shape)
         | [i] \<Rightarrow> Returned (True, shape i)
         | _ \<Rightarrow> Aborted CHECK_infeed_message)"
    unfolding infeed_instructions_def ScanComputations_concat
    by (subst ScanInstructions_filter) (rule ScanInstructions_infeeds, simp)
  then show ?thesis by (simp add: InfeedDecision_def split: sum.splits)
qed

lemma ReplayComputation_check_failed:
  assumes "LoadSnapshot w h module = Inr computation"
    and "MakeArguments w module opts computation (h @ [LoadSnapshotCall module (Inr computation)])
           = (Returned (Inr args), t2)"
    and "InfeedDecision w opts computation = (Aborted m, t3)"
  shows "ReplayComputation w module opts h =
           (Aborted m, [], LoadSnapshotCall module (Inr computation) # t2 @ t3)"
  using assms by (simp add: ReplayComputation_def)


section \<open>Lemmas on the recorded arguments\<close>


lemma TransferArguments_handles:
  "TransferArguments w ps args h = (Inr ds, tr) \<Longrightarrow>
     \<exists>new. ds = args @ new \<and> length new = length ps \<and> length tr = length ps \<and>
       (\<forall>k < length ps. \<exists>lit. CreateFromProto w (ps ! k) = Inr lit \<and>
          tr ! k = TransferToServerCall lit (Inr (new ! k)))"
proof (induction ps arbitrary: args h tr)
  case Nil
  then show ?case by simp
next
  case (Cons p ps)
  from Cons.prems obtain lit d tr' where
    lit: "CreateFromProto w p = Inr lit"
    and d: "TransferToServer w h lit = Inr d"
    and rec: "TransferArguments w ps (args @ [d]) (h @ [TransferToServerCall lit (Inr d)])
               = (Inr ds, tr')"
    and tr: "tr = TransferToServerCall lit (Inr d) # tr'"
    by (auto split: sum.splits prod.splits)
  from Cons.IH[OF rec] obtain new where
    ds: "ds = (args @ [d]) @ new" and len: "length new = length ps" "length tr' = length ps"
    and each: "\<forall>k < length ps. \<exists>lit. CreateFromProto w (ps ! k) = Inr lit \<and>
          tr' ! k = TransferToServerCall lit (Inr (new ! k))"
    by blast
  have "\<forall>k < length (p # ps). \<exists>l. CreateFromProto w ((p # ps) ! k) = Inr l \<and>
          tr ! k = TransferToServerCall l (Inr ((d # new) ! k))"
  proof (intro allI impI)
    fix k assume "k < length (p # ps)"
    then show "\<exists>l. CreateFromProto w ((p # ps) ! k) = Inr l \<and>
          tr ! k = TransferToServerCall l (Inr ((d # new) ! k))"
      using lit tr each by (cases k) auto
  qed
  with ds len tr show ?case by (intro exI[of _ "d # new"]) simp
qed

lemma TransferArguments_error:
  "TransferArguments w ps args h = (Inl e, tr) \<Longrightarrow>
     \<exists>p \<in> set ps. CreateFromProto w p = Inl e \<or>
       (\<exists>lit h'. CreateFromProto w p = Inr lit \<and> TransferToServer w h' lit = Inl e)"
proof (induction ps arbitrary: args h tr)
  case Nil
  then show ?case by simp
next
  case (Cons p ps)
  show ?case
  proof (cases "CreateFromProto w p")
    case (Inl e')
    with Cons.prems show ?thesis by simp
  next
    case (Inr lit)
    show ?thesis
    proof (cases "TransferToServer w h lit")
      case (Inl e')
      with Cons.prems Inr show ?thesis by auto
    next
      case d: (Inr d)
      with Cons.prems Inr obtain tr' where
        "TransferArguments w ps (args @ [d]) (h @ [TransferToServerCall lit (Inr d)]) = (Inl e, tr')"
        by (auto split: prod.splits)
      from Cons.IH[OF this] show ?thesis by auto
    qed
  qed
qed


section \<open>Lemmas on the batch\<close>












lemma MakeArguments_recorded_path:
  assumes rec: "\<not> use_fake_data opts"
  shows "MakeArguments w m opts c h = MakeArguments w m opts c' h \<and>
     (\<exists>r tr. MakeArguments w m opts c h = (Returned r, tr) \<and>
        (\<forall>ds. r = Inr ds \<longrightarrow>
           length ds = length (arguments m) \<and> length tr = length (arguments m) \<and>
           (\<forall>k < length (arguments m). \<exists>lit. CreateFromProto w (arguments m ! k) = Inr lit \<and>
              tr ! k = TransferToServerCall lit (Inr (ds ! k)))) \<and>
        (\<forall>e. r = Inl e \<longrightarrow>
           (\<exists>p \<in> set (arguments m). CreateFromProto w p = Inl e \<or>
              (\<exists>lit h'. CreateFromProto w p = Inr lit \<and> TransferToServer w h' lit = Inl e))))"
proof -
  obtain r tr where ta: "TransferArguments w (arguments m) [] h = (r, tr)"
    by (cases "TransferArguments w (arguments m) [] h") auto
  have same: "MakeArguments w m opts c h = MakeArguments w m opts c' h"
    using rec by (simp add: MakeArguments_def)
  have ma: "MakeArguments w m opts c h = (Returned r, tr)"
    using rec ta by (simp add: MakeArguments_def)
  have ok: "length ds = length (arguments m) \<and> length tr = length (arguments m) \<and>
           (\<forall>k < length (arguments m). \<exists>lit. CreateFromProto w (arguments m ! k) = Inr lit \<and>
              tr ! k = TransferToServerCall lit (Inr (ds ! k)))"
    if "r = Inr ds" for ds
    using TransferArguments_handles[OF ta[unfolded that]] by auto
  have err: "\<exists>p \<in> set (arguments m). CreateFromProto w p = Inl e \<or>
              (\<exists>lit h'. CreateFromProto w p = Inr lit \<and> TransferToServer w h' lit = Inl e)"
    if "r = Inl e" for e
    using TransferArguments_error[OF ta[unfolded that]] .
  from same ma ok err show ?thesis by blast
qed


section \<open>Lemmas on the report and on an empty loop\<close>


lemma RealMainLoop_report_lines:
  assumes read: "ReadBinaryProto w arg = Inr snapshot"
    and rc: "ReplayComputation w snapshot opts (h @ [ReadBinaryProtoCall arg (Inr snapshot)])
              = (Returned (Inr (Some lit)), ts1, t1)"
    and run: "RealMainLoop w opts [arg] st h = (Returned st', out, ts, tr)"
  shows "st' = st \<and>
     hd out = ResultLine arg (name (hlo_module (hlo snapshot)))
                (HumanString w (literal_shape lit)) (ToString lit) \<and>
     ((\<exists>s t. WasLine s t \<in> set out) \<longleftrightarrow> result snapshot \<noteq> None)"
  using run
proof (cases rule: RealMainLoop_elim)
  case (printed snapshot' lit' ts1' t1' out' ts' tr')
  with read rc show ?thesis by auto
next
  case (printed_was snapshot' lit' ts1' t1' p literal out' ts' tr')
  with read rc show ?thesis by auto
qed (use read rc in auto)

lemma no_execute_events:
  "(\<And>e. e \<in> set tr \<Longrightarrow> \<not> is_execute e) \<Longrightarrow> filter is_execute tr = []"
  by (simp add: filter_empty_conv)

lemma ReplayComputation_no_runs_any:
  assumes zero: "num_runs opts \<le> 0"
    and rc: "ReplayComputation w m opts h = (out, ts, tr)"
  shows "filter is_execute tr = [] \<and> out \<noteq> Returned (Inr (Some l))"
  using rc
proof (cases rule: ReplayComputation_elim)
  case (load_error e)
  then show ?thesis by simp
next
  case (arguments_died c msg t2)
  have "filter is_execute t2 = []"
    using MakeArguments_events[OF arguments_died(2)] by (intro no_execute_events) blast
  with arguments_died show ?thesis by simp
next
  case (arguments_error c e t2)
  have "filter is_execute t2 = []"
    using MakeArguments_events[OF arguments_error(2)] by (intro no_execute_events) blast
  with arguments_error show ?thesis by simp
next
  case (check_failed c args t2 msg t3)
  have "filter is_execute t2 = []"
    using MakeArguments_events[OF check_failed(2)] by (intro no_execute_events) blast
  moreover have "filter is_execute t3 = []"
    using InfeedDecision_events[OF check_failed(3)] by (intro no_execute_events) fastforce
  ultimately show ?thesis using check_failed by simp
next
  case (loop c args t2 b s t3 r t4)
  have "filter is_execute t2 = []"
    using MakeArguments_events[OF loop(2)] by (intro no_execute_events) blast
  moreover have "filter is_execute t3 = []"
    using InfeedDecision_events[OF loop(3)] by (intro no_execute_events) fastforce
  moreover have "r = Inr None \<and> t4 = []"
    using loop(4) zero by (simp add: RunLoop_done)
  ultimately show ?thesis using loop by (simp split: Outcome.splits)
qed

lemma ReplayComputation_no_runs_reached:
  assumes zero: "num_runs opts \<le> 0"
    and load: "LoadSnapshot w h module = Inr computation"
    and margs: "MakeArguments w module opts computation
                 (h @ [LoadSnapshotCall module (Inr computation)]) = (Returned (Inr args), t2)"
    and dec: "InfeedDecision w opts computation = (Returned (b, s), t3)"
    and join: "JoinPool w (if b then [InfeedTask opts s] else [])
                 (h @ LoadSnapshotCall module (Inr computation) # t2 @ t3) = Returned ()"
  shows "ReplayComputation w module opts h =
           (Returned (Inr None), (if b then [InfeedTask opts s] else []),
            LoadSnapshotCall module (Inr computation) # t2 @ t3) \<and>
         filter is_execute (LoadSnapshotCall module (Inr computation) # t2 @ t3) = [] \<and>
         (\<forall>h0 arg rest st.
            ReadBinaryProto w arg = Inr module \<and> h = h0 @ [ReadBinaryProtoCall arg (Inr module)]
            \<longrightarrow> fst (RealMainLoop w opts (arg # rest) st h0) =
                  fst (RealMainLoop w opts rest st
                         (h @ LoadSnapshotCall module (Inr computation) # t2 @ t3)) \<and>
                fst (snd (RealMainLoop w opts (arg # rest) st h0)) =
                  fst (snd (RealMainLoop w opts rest st
                         (h @ LoadSnapshotCall module (Inr computation) # t2 @ t3))))"
proof -
  let ?tr = "LoadSnapshotCall module (Inr computation) # t2 @ t3"
  have run: "RunLoop w opts computation args 0 None (h @ ?tr) = (Inr None, [])"
    using zero by (simp add: RunLoop_done)
  have whole: "ReplayComputation w module opts h =
      (Returned (Inr None), (if b then [InfeedTask opts s] else []), ?tr)"
    using ReplayComputation_loop[OF load margs dec run join] by simp
  have f2: "filter is_execute t2 = []"
    using MakeArguments_events[OF margs] by (auto simp: filter_empty_conv)
  have f3: "filter is_execute t3 = []"
    using InfeedDecision_events[OF dec] by (fastforce simp: filter_empty_conv)
  have noexec: "filter is_execute ?tr = []" using f2 f3 by simp
  have main: "fst (RealMainLoop w opts (arg # rest) st h0) =
        fst (RealMainLoop w opts rest st (h @ ?tr)) \<and>
      fst (snd (RealMainLoop w opts (arg # rest) st h0)) =
        fst (snd (RealMainLoop w opts rest st (h @ ?tr)))"
    if "ReadBinaryProto w arg = Inr module" "h = h0 @ [ReadBinaryProtoCall arg (Inr module)]"
    for h0 arg rest st
    using that whole by (auto simp: Let_def split: prod.splits)
  from whole noexec main show ?thesis by blast
qed


section \<open>Lemmas on the execute calls and on aborted batches\<close>

lemma RunLoop_arguments:
  "RunLoop w opts c a i res h = (r, tr) \<Longrightarrow> e \<in> set tr \<Longrightarrow> is_execute e \<Longrightarrow>
     arguments_of_call e = Some a"
proof (induction w opts c a i res h arbitrary: r tr rule: RunLoop.induct)
  case (1 w opts c a i res h)
  from "1.prems" show ?case
    by (subst (asm) RunLoop.simps)
       (auto split: if_splits sum.splits prod.splits dest: "1.IH")
qed

lemma RunLoop_first_call:
  "i < num_runs opts \<Longrightarrow> RunLoop w opts c a i res h = (r, tr) \<Longrightarrow>
     filter is_execute tr \<noteq> []"
  by (subst (asm) RunLoop.simps) (auto split: if_splits sum.splits prod.splits)

lemma TransferArguments_total:
  "\<forall>p \<in> set ps. \<exists>lit. CreateFromProto w p = Inr lit \<Longrightarrow>
   \<forall>h' l. \<exists>d. TransferToServer w h' l = Inr d \<Longrightarrow>
     \<exists>ds tr. TransferArguments w ps args h = (Inr ds, tr)"
proof (induction ps arbitrary: args h)
  case Nil
  show ?case by simp
next
  case (Cons p ps)
  from Cons.prems(1) obtain lit where lit: "CreateFromProto w p = Inr lit" by auto
  from Cons.prems(2) obtain d where d: "TransferToServer w h lit = Inr d" by blast
  from Cons.prems(1) have rest: "\<forall>p \<in> set ps. \<exists>lit. CreateFromProto w p = Inr lit" by simp
  from Cons.IH[OF rest Cons.prems(2), of "args @ [d]" "h @ [TransferToServerCall lit (Inr d)]"]
  obtain ds tr where
    "TransferArguments w ps (args @ [d]) (h @ [TransferToServerCall lit (Inr d)]) = (Inr ds, tr)"
    by blast
  with lit d show ?case by simp
qed

lemma ReplayComputation_arguments_error:
  assumes "LoadSnapshot w h m = Inr c"
    and "MakeArguments w m opts c (h @ [LoadSnapshotCall m (Inr c)]) = (Returned (Inl e), t2)"
  shows "ReplayComputation w m opts h = (Returned (Inl e), [], LoadSnapshotCall m (Inr c) # t2) \<and>
     filter is_execute (LoadSnapshotCall m (Inr c) # t2) = []"
proof -
  have "filter is_execute t2 = []"
    using MakeArguments_events[OF assms(2)] by (intro no_execute_events) blast
  with assms show ?thesis by (simp add: ReplayComputation_def)
qed

lemma ReplayComputation_executes_with:
  assumes load: "LoadSnapshot w h m = Inr c"
    and margs: "MakeArguments w m opts c (h @ [LoadSnapshotCall m (Inr c)]) = (Returned (Inr ds), t2)"
    and dec: "InfeedDecision w opts c = (Returned (b, s), t3)"
    and join: "JoinPool w (if b then [InfeedTask opts s] else [])
                 (h @ LoadSnapshotCall m (Inr c) # t2 @ t3) = Returned ()"
    and runs: "1 \<le> num_runs opts"
  shows "filter is_execute (snd (snd (ReplayComputation w m opts h))) \<noteq> [] \<and>
     (\<forall>e \<in> set (snd (snd (ReplayComputation w m opts h))).
        is_execute e \<longrightarrow> arguments_of_call e = Some ds)"
proof -
  obtain r t4 where
    run: "RunLoop w opts c ds 0 None (h @ LoadSnapshotCall m (Inr c) # t2 @ t3) = (r, t4)"
    by (cases "RunLoop w opts c ds 0 None (h @ LoadSnapshotCall m (Inr c) # t2 @ t3)") auto
  note whole = ReplayComputation_loop[OF load margs dec run join]
  have ne: "filter is_execute t4 \<noteq> []"
    using RunLoop_first_call[OF _ run] runs by simp
  have a2: "\<not> is_execute e" if "e \<in> set t2" for e
    using MakeArguments_events[OF margs that] by simp
  have a3: "\<not> is_execute e" if "e \<in> set t3" for e
    using InfeedDecision_events[OF dec that] by auto
  have a4: "arguments_of_call e = Some ds" if "e \<in> set t4" "is_execute e" for e
    using RunLoop_arguments[OF run that] .
  from whole ne a2 a3 a4 show ?thesis by auto
qed

lemma MakeArguments_recorded_total:
  assumes "\<not> use_fake_data opts"
    and "\<forall>p \<in> set (arguments m). \<exists>lit. CreateFromProto w p = Inr lit"
    and "\<forall>h' l. \<exists>d. TransferToServer w h' l = Inr d"
  shows "\<exists>ds tr. MakeArguments w m opts c h = (Returned (Inr ds), tr)"
  using TransferArguments_total[OF assms(2,3), of "[]" h] assms(1)
  by (auto simp: MakeArguments_def)






section \<open>The claims\<close>

text \<open>
  C1. With \<open>num_runs = N\<close>, \<open>N \<ge> 1\<close>, and a client on which every execute call
  succeeds, a replay that reaches the execution loop (the snapshot loads, the
  arguments are provided, the infeed decision passes its checks) and whose infeed
  worker, if one is scheduled, passes its own checks, makes exactly \<open>N\<close> execute
  calls, each after the previous one has returned, and returns what the \<open>N\<close>th call
  retrieved and nothing of the earlier ones.
\<close>

theorem ReplayComputation_num_runs:
  assumes runs: "1 \<le> num_runs opts"
    and ea: "\<forall>h c a eo. \<exists>x. ExecuteAndTransfer w h c a eo = Inr x"
    and ex: "\<forall>h c a eo. \<exists>x. Execute w h c a eo = Inr x"
    and load: "LoadSnapshot w h module = Inr computation"
    and margs: "MakeArguments w module opts computation
                 (h @ [LoadSnapshotCall module (Inr computation)]) = (Returned (Inr args), t2)"
    and dec: "InfeedDecision w opts computation = (Returned (b, s), t3)"
    and join: "JoinPool w (if b then [InfeedTask opts s] else [])
                 (h @ LoadSnapshotCall module (Inr computation) # t2 @ t3) = Returned ()"
  shows "\<exists>r ts tr. ReplayComputation w module opts h = (Returned (Inr r), ts, tr) \<and>
           length (filter is_execute tr) = nat (num_runs opts) \<and>
           r = execute_result (filter is_execute tr ! (nat (num_runs opts) - 1)) \<and>
           sequential w h tr"
proof -
  let ?t1 = "LoadSnapshotCall module (Inr computation)"
  let ?h = "h @ ?t1 # t2 @ t3"
  from RunLoop_ok[OF ea ex, of 0 opts computation args None ?h] runs
  obtain r t4 where
    run: "RunLoop w opts computation args 0 None ?h = (Inr r, t4)"
    and len: "length (filter is_execute t4) = nat (num_runs opts)"
    and res: "r = (if print_result opts then execute_result (last (filter is_execute t4)) else None)"
    by auto
  let ?tr = "?t1 # t2 @ t3 @ t4"
  have whole: "ReplayComputation w module opts h =
      (Returned (Inr r), (if b then [InfeedTask opts s] else []), ?tr)"
    using ReplayComputation_loop[OF load margs dec run join] .
  have f2: "filter is_execute t2 = []"
    using MakeArguments_events[OF margs] by (auto simp: filter_empty_conv)
  have f3: "filter is_execute t3 = []"
    using InfeedDecision_events[OF dec] by (fastforce simp: filter_empty_conv)
  have filt: "filter is_execute ?tr = filter is_execute t4"
    using f2 f3 by simp
  have ne: "filter is_execute t4 \<noteq> []"
    using len runs by auto
  have nth: "filter is_execute t4 ! (nat (num_runs opts) - 1) = last (filter is_execute t4)"
    using ne len by (simp add: last_conv_nth)
  have r_eq: "r = execute_result (last (filter is_execute t4))"
  proof (cases "print_result opts")
    case True
    with res show ?thesis by simp
  next
    case False
    have "last (filter is_execute t4) \<in> set t4"
      using ne last_in_set[OF ne] by auto
    then have "execute_result (last (filter is_execute t4)) = None"
      using RunLoop_no_transfer[OF run False] execute_result_Some
      by (cases "execute_result (last (filter is_execute t4))") (simp, metis)
    with res False show ?thesis by simp
  qed
  have s1: "sequential w h [?t1]" using load by simp
  have s2: "sequential w (h @ [?t1]) t2" using MakeArguments_sequential[OF margs] .
  have s3: "sequential w (h @ ?t1 # t2) t3"
    using logs_sequential[of t3 w] InfeedDecision_events[OF dec] by blast
  have s4: "sequential w ?h t4" using RunLoop_sequential[OF run] .
  have seq: "sequential w h ?tr"
    using s1 s2 s3 s4 sequential_append[of w h "[?t1]" "t2 @ t3 @ t4"]
      sequential_append[of w "h @ [?t1]" t2 "t3 @ t4"]
      sequential_append[of w "h @ ?t1 # t2" t3 t4]
    by simp
  show ?thesis
    using whole len r_eq seq filt nth by (metis (no_types, lifting))
qed

theorem ReplayComputation_num_runs_witness:
  "1 \<le> num_runs (demo_opts\<lparr>generate_fake_infeed := True\<rparr>) \<and>
   (\<exists>r ts tr. ReplayComputation demo_World demo_snapshot
        (demo_opts\<lparr>generate_fake_infeed := True\<rparr>) [] = (Returned (Inr r), ts, tr) \<and>
      length (filter is_execute tr) = nat (num_runs (demo_opts\<lparr>generate_fake_infeed := True\<rparr>)) \<and>
      r = execute_result
            (filter is_execute tr ! (nat (num_runs (demo_opts\<lparr>generate_fake_infeed := True\<rparr>)) - 1)) \<and>
      sequential demo_World [] tr) \<and>
   ReplayComputation demo_World demo_snapshot (demo_opts\<lparr>generate_fake_infeed := True\<rparr>) [] =
     (Returned (Inr (Some (Literal (Shape ''f32[]'') ''xx''))),
      [InfeedTask (demo_opts\<lparr>generate_fake_infeed := True\<rparr>) (Shape ''f32[2]'')],
      [LoadSnapshotCall demo_snapshot (Inr (XlaComputation demo_module)),
       TransferToServerCall (Literal (Shape ''f32[]'') ''1'') (Inr (GlobalData 1)),
       LogFakeInfeedShape ''f32[2]'',
       ExecuteAndTransferCall (XlaComputation demo_module) [GlobalData 1]
         \<lparr>xla_hlo_profile = False\<rparr> (Inr (Literal (Shape ''f32[]'') '''', \<lparr>compute_time_ns = 5\<rparr>)),
       LogExecutionTook 5,
       ExecuteAndTransferCall (XlaComputation demo_module) [GlobalData 1]
         \<lparr>xla_hlo_profile = False\<rparr> (Inr (Literal (Shape ''f32[]'') ''x'', \<lparr>compute_time_ns = 5\<rparr>)),
       LogExecutionTook 5,
       ExecuteAndTransferCall (XlaComputation demo_module) [GlobalData 1]
         \<lparr>xla_hlo_profile = False\<rparr> (Inr (Literal (Shape ''f32[]'') ''xx'', \<lparr>compute_time_ns = 5\<rparr>)),
       LogExecutionTook 5])"
proof -
  let ?opts = "demo_opts\<lparr>generate_fake_infeed := True\<rparr>"
  let ?t2 = "[TransferToServerCall (Literal (Shape ''f32[]'') ''1'') (Inr (GlobalData 1))]"
  let ?t3 = "[LogFakeInfeedShape ''f32[2]'']"
  let ?h = "[] @ LoadSnapshotCall demo_snapshot (Inr (XlaComputation demo_module)) # ?t2 @ ?t3"
  have runs: "1 \<le> num_runs ?opts" by (simp add: demo_opts_def)
  have ea: "\<forall>h c a eo. \<exists>x. ExecuteAndTransfer demo_World h c a eo = Inr x"
    by (simp add: demo_World_def)
  have ex: "\<forall>h c a eo. \<exists>x. Execute demo_World h c a eo = Inr x"
    by (simp add: demo_World_def)
  have load: "LoadSnapshot demo_World [] demo_snapshot = Inr (XlaComputation demo_module)"
    by (simp add: demo_defs)
  have margs: "MakeArguments demo_World demo_snapshot ?opts (XlaComputation demo_module)
       ([] @ [LoadSnapshotCall demo_snapshot (Inr (XlaComputation demo_module))]) =
     (Returned (Inr [GlobalData 1]), ?t2)"
    by (simp add: MakeArguments_def demo_defs)
  have dec: "InfeedDecision demo_World ?opts (XlaComputation demo_module) =
     (Returned (True, Shape ''f32[2]''), ?t3)"
    by (simp add: InfeedDecision_def default_Shape_def demo_defs)
  have gen: "MakeFakeLiteral demo_World (Shape ''f32[2]'') = Inr (Literal (Shape ''f32[2]'') ''0'')"
    by (simp add: demo_World_def)
  have push: "\<forall>h'. TransferToInfeed demo_World h' (Literal (Shape ''f32[2]'') ''0'') = OK"
    by (simp add: demo_World_def)
  have join: "JoinPool demo_World (if True then [InfeedTask ?opts (Shape ''f32[2]'')] else []) ?h
      = Returned ()"
    using gen by (simp add: InfeedWorker_def InfeedLoop_ok[OF push])
  have run: "RunLoop demo_World ?opts (XlaComputation demo_module) [GlobalData 1] 0 None ?h =
     (Inr (Some (Literal (Shape ''f32[]'') ''xx'')),
      [ExecuteAndTransferCall (XlaComputation demo_module) [GlobalData 1]
         \<lparr>xla_hlo_profile = False\<rparr> (Inr (Literal (Shape ''f32[]'') '''', \<lparr>compute_time_ns = 5\<rparr>)),
       LogExecutionTook 5,
       ExecuteAndTransferCall (XlaComputation demo_module) [GlobalData 1]
         \<lparr>xla_hlo_profile = False\<rparr> (Inr (Literal (Shape ''f32[]'') ''x'', \<lparr>compute_time_ns = 5\<rparr>)),
       LogExecutionTook 5,
       ExecuteAndTransferCall (XlaComputation demo_module) [GlobalData 1]
         \<lparr>xla_hlo_profile = False\<rparr> (Inr (Literal (Shape ''f32[]'') ''xx'', \<lparr>compute_time_ns = 5\<rparr>)),
       LogExecutionTook 5])"
    by (simp add: RunLoop.simps RunOptions_def demo_World_def demo_opts_def)
  note whole = ReplayComputation_loop[OF load margs dec run join]
  from ReplayComputation_num_runs[OF runs ea ex load margs dec join] runs whole
  show ?thesis by simp
qed

text \<open>
  C2, as the code has it. A non-empty \<open>fake_infeed_shape\<close> is parsed and decides
  alone: an infeed of the parsed shape, or the fatal check when it does not parse.
  Otherwise, with \<open>generate_fake_infeed\<close>, the infeed instructions of the program
  decide: none, no infeed; one, an infeed of its shape; two or more, the fatal
  \<open>CHECK\<close>. Otherwise no infeed. In a replay that reaches the decision, a worker is
  scheduled exactly when the decision is to feed, and a fatal check ends the
  process before any execute call: \<open>RealMain\<close> aborts and reads no further file.

  The claim has two or more infeeds as an error of that file only, the batch going
  on: the run after the theorem is a batch of two files in which the second is
  never read.
\<close>

theorem InfeedDecision_policy:
  "fst (InfeedDecision w opts computation) =
     (if fake_infeed_shape opts \<noteq> [] then
        (case ParseShapeString w (fake_infeed_shape opts) of
           Inl e \<Rightarrow> Aborted e
         | Inr s \<Rightarrow> Returned (True, s))
      else if generate_fake_infeed opts then
        (case infeed_instructions w computation of
           [] \<Rightarrow> Returned (False, default_Shape)
         | [i] \<Rightarrow> Returned (True, shape i)
         | _ \<Rightarrow> Aborted CHECK_infeed_message)
      else Returned (False, default_Shape)) \<and>
   (LoadSnapshot w h module = Inr computation \<and>
    MakeArguments w module opts computation (h @ [LoadSnapshotCall module (Inr computation)])
      = (Returned (Inr args), t2)
    \<longrightarrow>
      (case fst (InfeedDecision w opts computation) of
         Returned (provide_infeed, infeed_shape) \<Rightarrow>
           fst (snd (ReplayComputation w module opts h)) =
             (if provide_infeed then [InfeedTask opts infeed_shape] else [])
       | Aborted m \<Rightarrow>
           fst (ReplayComputation w module opts h) = Aborted m \<and>
           filter is_execute (snd (snd (ReplayComputation w module opts h))) = [] \<and>
           (\<forall>h0 arg rest st.
              ReadBinaryProto w arg = Inr module \<and> h = h0 @ [ReadBinaryProtoCall arg (Inr module)]
              \<longrightarrow> fst (RealMainLoop w opts (arg # rest) st h0) = Aborted m \<and>
                  List.map_filter read_path (snd (snd (snd (RealMainLoop w opts (arg # rest) st h0))))
                    = [arg])))"
proof -
  obtain d t3 where dec: "InfeedDecision w opts computation = (d, t3)"
    by (cases "InfeedDecision w opts computation") auto
  have second: "(case fst (InfeedDecision w opts computation) of
         Returned (provide_infeed, infeed_shape) \<Rightarrow>
           fst (snd (ReplayComputation w module opts h)) =
             (if provide_infeed then [InfeedTask opts infeed_shape] else [])
       | Aborted m \<Rightarrow>
           fst (ReplayComputation w module opts h) = Aborted m \<and>
           filter is_execute (snd (snd (ReplayComputation w module opts h))) = [] \<and>
           (\<forall>h0 arg rest st.
              ReadBinaryProto w arg = Inr module \<and> h = h0 @ [ReadBinaryProtoCall arg (Inr module)]
              \<longrightarrow> fst (RealMainLoop w opts (arg # rest) st h0) = Aborted m \<and>
                  List.map_filter read_path (snd (snd (snd (RealMainLoop w opts (arg # rest) st h0))))
                    = [arg]))"
    if load: "LoadSnapshot w h module = Inr computation"
      and margs: "MakeArguments w module opts computation
          (h @ [LoadSnapshotCall module (Inr computation)]) = (Returned (Inr args), t2)"
  proof (cases d)
    case (Returned st)
    obtain b s where st: "st = (b, s)" by (cases st)
    from ReplayComputation_tasks[OF load margs dec[unfolded Returned st]] dec Returned st
    show ?thesis by simp
  next
    case (Aborted m)
    note rc = ReplayComputation_check_failed[OF load margs dec[unfolded Aborted]]
    have f2: "filter is_execute t2 = []"
      using MakeArguments_events[OF margs] by (auto simp: filter_empty_conv)
    have f3: "filter is_execute t3 = []"
      using InfeedDecision_events[OF dec] by (fastforce simp: filter_empty_conv)
    have paths: "List.map_filter read_path (LoadSnapshotCall module (Inr computation) # t2 @ t3) = []"
      using ReplayComputation_read_paths[OF rc] .
    have main: "fst (RealMainLoop w opts (arg # rest) st h0) = Aborted m \<and>
        List.map_filter read_path (snd (snd (snd (RealMainLoop w opts (arg # rest) st h0)))) = [arg]"
      if "ReadBinaryProto w arg = Inr module" "h = h0 @ [ReadBinaryProtoCall arg (Inr module)]"
      for h0 arg rest st
      using that rc paths by (simp add: Let_def map_filter_simps)
    from rc f2 f3 main dec Aborted show ?thesis by simp
  qed
  from InfeedDecision_outcome[of w opts computation] second show ?thesis by blast
qed

theorem InfeedDecision_policy_witness:
  "fst (InfeedDecision demo_World (demo_opts\<lparr>generate_fake_infeed := True\<rparr>)
          (XlaComputation two_infeeds_module)) = Aborted CHECK_infeed_message \<and>
   fst (RealMainLoop demo_World (demo_opts\<lparr>generate_fake_infeed := True\<rparr>)
          [''two'', ''a''] EXIT_SUCCESS []) = Aborted CHECK_infeed_message \<and>
   List.map_filter read_path
     (snd (snd (snd (RealMainLoop demo_World (demo_opts\<lparr>generate_fake_infeed := True\<rparr>)
          [''two'', ''a''] EXIT_SUCCESS [])))) = [''two''] \<and>
   fst (InfeedDecision demo_World (demo_opts\<lparr>generate_fake_infeed := True\<rparr>)
          (XlaComputation demo_module)) = Returned (True, Shape ''f32[2]'') \<and>
   fst (snd (ReplayComputation demo_World demo_snapshot
          (demo_opts\<lparr>generate_fake_infeed := True\<rparr>) [])) =
     [InfeedTask (demo_opts\<lparr>generate_fake_infeed := True\<rparr>) (Shape ''f32[2]'')]"
proof -
  let ?opts = "demo_opts\<lparr>generate_fake_infeed := True\<rparr>"
  let ?h = "[ReadBinaryProtoCall ''two'' (Inr two_infeeds_snapshot)]"
  have read: "ReadBinaryProto demo_World ''two'' = Inr two_infeeds_snapshot"
    by (simp add: demo_World_def)
  have load: "LoadSnapshot demo_World ?h two_infeeds_snapshot =
      Inr (XlaComputation two_infeeds_module)"
    by (simp add: demo_World_def two_infeeds_snapshot_def two_infeeds_module_def)
  have margs: "MakeArguments demo_World two_infeeds_snapshot ?opts
       (XlaComputation two_infeeds_module)
       (?h @ [LoadSnapshotCall two_infeeds_snapshot (Inr (XlaComputation two_infeeds_module))]) =
     (Returned (Inr []), [])"
    by (simp add: MakeArguments_def demo_opts_def two_infeeds_snapshot_def)
  have two: "infeed_instructions demo_World (XlaComputation two_infeeds_module) =
      [\<lparr>opcode = ''infeed'', shape = Shape ''f32[2]''\<rparr>,
       \<lparr>opcode = ''infeed'', shape = Shape ''f32[3]''\<rparr>]"
    by (simp add: infeed_instructions_def two_infeeds_module_def demo_World_def)
  have flags: "fake_infeed_shape ?opts = []" "generate_fake_infeed ?opts"
    by (simp_all add: demo_opts_def)
  note pol = InfeedDecision_policy[of demo_World ?opts "XlaComputation two_infeeds_module" ?h
      two_infeeds_snapshot "[]" "[]"]
  from pol two flags
  have dec: "fst (InfeedDecision demo_World ?opts (XlaComputation two_infeeds_module)) =
      Aborted CHECK_infeed_message"
    by simp
  from pol load margs
  have "case fst (InfeedDecision demo_World ?opts (XlaComputation two_infeeds_module)) of
         Returned (provide_infeed, infeed_shape) \<Rightarrow>
           fst (snd (ReplayComputation demo_World two_infeeds_snapshot ?opts ?h)) =
             (if provide_infeed then [InfeedTask ?opts infeed_shape] else [])
       | Aborted m \<Rightarrow>
           fst (ReplayComputation demo_World two_infeeds_snapshot ?opts ?h) = Aborted m \<and>
           filter is_execute (snd (snd (ReplayComputation demo_World two_infeeds_snapshot ?opts ?h))) = [] \<and>
           (\<forall>h0 arg rest st.
              ReadBinaryProto demo_World arg = Inr two_infeeds_snapshot \<and>
              ?h = h0 @ [ReadBinaryProtoCall arg (Inr two_infeeds_snapshot)]
              \<longrightarrow> fst (RealMainLoop demo_World ?opts (arg # rest) st h0) = Aborted m \<and>
                  List.map_filter read_path
                    (snd (snd (snd (RealMainLoop demo_World ?opts (arg # rest) st h0)))) = [arg])"
    by blast
  then have "\<forall>h0 arg rest st.
              ReadBinaryProto demo_World arg = Inr two_infeeds_snapshot \<and>
              ?h = h0 @ [ReadBinaryProtoCall arg (Inr two_infeeds_snapshot)]
              \<longrightarrow> fst (RealMainLoop demo_World ?opts (arg # rest) st h0) =
                    Aborted CHECK_infeed_message \<and>
                  List.map_filter read_path
                    (snd (snd (snd (RealMainLoop demo_World ?opts (arg # rest) st h0)))) = [arg]"
    unfolding dec by simp
  from this[rule_format, of "''two''" "[]" "[''a'']" EXIT_SUCCESS] read dec
  have a: "fst (InfeedDecision demo_World ?opts (XlaComputation two_infeeds_module)) =
        Aborted CHECK_infeed_message \<and>
      fst (RealMainLoop demo_World ?opts [''two'', ''a''] EXIT_SUCCESS []) =
        Aborted CHECK_infeed_message \<and>
      List.map_filter read_path
        (snd (snd (snd (RealMainLoop demo_World ?opts [''two'', ''a''] EXIT_SUCCESS [])))) =
        [''two'']"
    by simp
  have load1: "LoadSnapshot demo_World [] demo_snapshot = Inr (XlaComputation demo_module)"
    by (simp add: demo_defs)
  have margs1: "MakeArguments demo_World demo_snapshot ?opts (XlaComputation demo_module)
       ([] @ [LoadSnapshotCall demo_snapshot (Inr (XlaComputation demo_module))]) =
     (Returned (Inr [GlobalData 1]),
      [TransferToServerCall (Literal (Shape ''f32[]'') ''1'') (Inr (GlobalData 1))])"
    by (simp add: MakeArguments_def demo_defs)
  have one: "infeed_instructions demo_World (XlaComputation demo_module) =
      [\<lparr>opcode = ''infeed'', shape = Shape ''f32[2]''\<rparr>]"
    by (simp add: infeed_instructions_def demo_module_def demo_World_def)
  note pol1 = InfeedDecision_policy[of demo_World ?opts "XlaComputation demo_module" "[]"
      demo_snapshot "[GlobalData 1]"
      "[TransferToServerCall (Literal (Shape ''f32[]'') ''1'') (Inr (GlobalData 1))]"]
  from pol1 one flags
  have dec1: "fst (InfeedDecision demo_World ?opts (XlaComputation demo_module)) =
      Returned (True, Shape ''f32[2]'')"
    by simp
  from pol1 load1 margs1
  have "case fst (InfeedDecision demo_World ?opts (XlaComputation demo_module)) of
         Returned (provide_infeed, infeed_shape) \<Rightarrow>
           fst (snd (ReplayComputation demo_World demo_snapshot ?opts [])) =
             (if provide_infeed then [InfeedTask ?opts infeed_shape] else [])
       | Aborted m \<Rightarrow>
           fst (ReplayComputation demo_World demo_snapshot ?opts []) = Aborted m \<and>
           filter is_execute (snd (snd (ReplayComputation demo_World demo_snapshot ?opts []))) = [] \<and>
           (\<forall>h0 arg rest st.
              ReadBinaryProto demo_World arg = Inr demo_snapshot \<and>
              [] = h0 @ [ReadBinaryProtoCall arg (Inr demo_snapshot)]
              \<longrightarrow> fst (RealMainLoop demo_World ?opts (arg # rest) st h0) = Aborted m \<and>
                  List.map_filter read_path
                    (snd (snd (snd (RealMainLoop demo_World ?opts (arg # rest) st h0)))) = [arg])"
    by blast
  then have "fst (snd (ReplayComputation demo_World demo_snapshot ?opts [])) =
        [InfeedTask ?opts (Shape ''f32[2]'')]"
    unfolding dec1 by simp
  with dec1
  have b: "fst (InfeedDecision demo_World ?opts (XlaComputation demo_module)) =
        Returned (True, Shape ''f32[2]'') \<and>
      fst (snd (ReplayComputation demo_World demo_snapshot ?opts [])) =
        [InfeedTask ?opts (Shape ''f32[2]'')]"
    by simp
  from a b show ?thesis by simp
qed


theorem two_infeeds_abort_batch:
  "RealMain demo_World (demo_opts\<lparr>generate_fake_infeed := True\<rparr>) [''two'', ''a''] =
     (Aborted CHECK_infeed_message, [], [],
      [ReadBinaryProtoCall ''two'' (Inr two_infeeds_snapshot),
       LoadSnapshotCall two_infeeds_snapshot (Inr (XlaComputation two_infeeds_module)),
       LogFakeInfeedShape ''f32[2]''])"
  by (simp add: RealMain_def ReplayComputation_def MakeArguments_def InfeedDecision_def
        default_Shape_def demo_World_def demo_opts_def
        two_infeeds_snapshot_def two_infeeds_module_def)

text \<open>
  C3. When the infeed decision asks for an infeed, the replay schedules exactly one
  worker. A worker that runs to its end has made one fake literal for the infeed
  shape, once, and then transferred that same literal to the infeed \<open>num_infeeds\<close>
  times (not at all when \<open>num_infeeds\<close> is negative), each transfer after the
  previous one has returned; and it does run to its end when the literal can be
  made and every transfer is accepted.
\<close>

theorem InfeedWorker_pushes:
  assumes load: "LoadSnapshot w h module = Inr computation"
    and margs: "MakeArguments w module opts computation
                 (h @ [LoadSnapshotCall module (Inr computation)]) = (Returned (Inr args), t2)"
    and dec: "InfeedDecision w opts computation = (Returned (True, s), t3)"
  shows "fst (snd (ReplayComputation w module opts h)) = [InfeedTask opts s] \<and>
     (\<forall>h' tr. RunTask w (InfeedTask opts s) h' = (Returned (), tr) \<longrightarrow>
        (\<exists>data. MakeFakeLiteral w s = Inr data \<and>
           tr = MakeFakeLiteralCall s (Inr data)
                  # replicate (nat (num_infeeds opts)) (TransferToInfeedCall data OK))) \<and>
     (\<forall>h' r tr. RunTask w (InfeedTask opts s) h' = (r, tr) \<longrightarrow> sequential w h' tr) \<and>
     (\<forall>data. MakeFakeLiteral w s = Inr data \<and> (\<forall>h'. TransferToInfeed w h' data = OK) \<longrightarrow>
        (\<forall>h'. RunTask w (InfeedTask opts s) h' =
           (Returned (),
            MakeFakeLiteralCall s (Inr data)
              # replicate (nat (num_infeeds opts)) (TransferToInfeedCall data OK))))"
proof -
  have one: "fst (snd (ReplayComputation w module opts h)) = [InfeedTask opts s]"
    using ReplayComputation_tasks[OF load margs dec] by simp
  have returned: "\<exists>data. MakeFakeLiteral w s = Inr data \<and>
           tr = MakeFakeLiteralCall s (Inr data)
                  # replicate (nat (num_infeeds opts)) (TransferToInfeedCall data OK)"
    if "RunTask w (InfeedTask opts s) h' = (Returned (), tr)" for h' tr
    using that
    by (auto simp: InfeedWorker_def split: sum.splits prod.splits dest: InfeedLoop_returned)
  have seq: "sequential w h' tr" if "RunTask w (InfeedTask opts s) h' = (r, tr)" for h' r tr
    using that InfeedWorker_sequential by simp
  have ok: "RunTask w (InfeedTask opts s) h' =
           (Returned (),
            MakeFakeLiteralCall s (Inr data)
              # replicate (nat (num_infeeds opts)) (TransferToInfeedCall data OK))"
    if "MakeFakeLiteral w s = Inr data" "\<forall>h'. TransferToInfeed w h' data = OK" for data h'
    using that by (simp add: InfeedWorker_def InfeedLoop_ok)
  from one returned seq ok show ?thesis by blast
qed


theorem InfeedWorker_pushes_witness:
  "fst (snd (ReplayComputation demo_World demo_snapshot
              (demo_opts\<lparr>generate_fake_infeed := True, num_infeeds := 5\<rparr>) []))
     = [InfeedTask (demo_opts\<lparr>generate_fake_infeed := True, num_infeeds := 5\<rparr>) (Shape ''f32[2]'')] \<and>
   RunTask demo_World
       (InfeedTask (demo_opts\<lparr>generate_fake_infeed := True, num_infeeds := 5\<rparr>) (Shape ''f32[2]'')) [] =
     (Returned (),
      [MakeFakeLiteralCall (Shape ''f32[2]'') (Inr (Literal (Shape ''f32[2]'') ''0'')),
       TransferToInfeedCall (Literal (Shape ''f32[2]'') ''0'') OK,
       TransferToInfeedCall (Literal (Shape ''f32[2]'') ''0'') OK,
       TransferToInfeedCall (Literal (Shape ''f32[2]'') ''0'') OK,
       TransferToInfeedCall (Literal (Shape ''f32[2]'') ''0'') OK,
       TransferToInfeedCall (Literal (Shape ''f32[2]'') ''0'') OK])"
proof -
  let ?opts = "demo_opts\<lparr>generate_fake_infeed := True, num_infeeds := 5\<rparr>"
  have load: "LoadSnapshot demo_World [] demo_snapshot = Inr (XlaComputation demo_module)"
    by (simp add: demo_defs)
  have margs: "MakeArguments demo_World demo_snapshot ?opts (XlaComputation demo_module)
       ([] @ [LoadSnapshotCall demo_snapshot (Inr (XlaComputation demo_module))]) =
     (Returned (Inr [GlobalData 1]),
      [TransferToServerCall (Literal (Shape ''f32[]'') ''1'') (Inr (GlobalData 1))])"
    by (simp add: MakeArguments_def demo_defs)
  have dec: "InfeedDecision demo_World ?opts (XlaComputation demo_module) =
     (Returned (True, Shape ''f32[2]''), [LogFakeInfeedShape ''f32[2]''])"
    by (simp add: InfeedDecision_def default_Shape_def demo_defs)
  have gen: "MakeFakeLiteral demo_World (Shape ''f32[2]'') = Inr (Literal (Shape ''f32[2]'') ''0'')"
    by (simp add: demo_World_def)
  have push: "\<forall>h'. TransferToInfeed demo_World h' (Literal (Shape ''f32[2]'') ''0'') = OK"
    by (simp add: demo_World_def)
  have five: "nat (num_infeeds ?opts) = Suc (Suc (Suc (Suc (Suc 0))))"
    by (simp add: demo_opts_def)
  from InfeedWorker_pushes[OF load margs dec] gen push
  have "fst (snd (ReplayComputation demo_World demo_snapshot ?opts [])) =
          [InfeedTask ?opts (Shape ''f32[2]'')] \<and>
        RunTask demo_World (InfeedTask ?opts (Shape ''f32[2]'')) [] =
          (Returned (),
            MakeFakeLiteralCall (Shape ''f32[2]'') (Inr (Literal (Shape ''f32[2]'') ''0''))
              # replicate (nat (num_infeeds ?opts))
                  (TransferToInfeedCall (Literal (Shape ''f32[2]'') ''0'') OK))"
    by blast
  then show ?thesis unfolding five by simp
qed




text \<open>
  C5, as the code has it. With \<open>use_fake_data = false\<close> the arguments are made from
  the recorded ones alone, whatever the program is: one handle for each recorded
  argument, in their order, each the answer of the server to the transfer of that
  argument. The number of recorded arguments is never compared with the number of
  parameters the program declares. The only failures are a recorded argument that
  cannot be turned into a literal or cannot be transferred, and there is none when
  every recorded argument can; the replay returns that status and makes no execute
  call. When the arguments are made, a replay that reaches the loop with
  \<open>num_runs \<ge> 1\<close>, its infeed worker, if any, passing its checks, makes execute
  calls, and each with exactly those handles.
  With \<open>use_fake_data = true\<close> the arguments are those \<open>MakeFakeArgumentsOrDie\<close> makes.

  The claim has a mismatch of the two numbers fail before any execution: in the
  run after the theorem the program declares one parameter, the snapshot records
  none, and the computation is executed with no argument.
\<close>

theorem MakeArguments_handles:
  "(\<not> use_fake_data opts \<longrightarrow>
      MakeArguments w m opts c h = MakeArguments w m opts c' h \<and>
      (\<exists>r tr. MakeArguments w m opts c h = (Returned r, tr) \<and>
         (\<forall>ds. r = Inr ds \<longrightarrow>
            length ds = length (arguments m) \<and> length tr = length (arguments m) \<and>
            (\<forall>k < length (arguments m). \<exists>lit. CreateFromProto w (arguments m ! k) = Inr lit \<and>
               tr ! k = TransferToServerCall lit (Inr (ds ! k)))) \<and>
         (\<forall>e. r = Inl e \<longrightarrow>
            (\<exists>p \<in> set (arguments m). CreateFromProto w p = Inl e \<or>
               (\<exists>lit h'. CreateFromProto w p = Inr lit \<and> TransferToServer w h' lit = Inl e))) \<and>
         ((\<forall>p \<in> set (arguments m). \<exists>lit. CreateFromProto w p = Inr lit) \<and>
          (\<forall>h' l. \<exists>d. TransferToServer w h' l = Inr d)
          \<longrightarrow> (\<exists>ds. r = Inr ds)))) \<and>
   (use_fake_data opts \<longrightarrow>
      fst (MakeArguments w m opts c h) =
        (case MakeFakeArgumentsOrDie w h c of
           None \<Rightarrow> Aborted ''MakeFakeArgumentsOrDie''
         | Some args \<Rightarrow> Returned (Inr args))) \<and>
   (\<forall>h0 e t2.
      LoadSnapshot w h0 m = Inr c \<and> h = h0 @ [LoadSnapshotCall m (Inr c)] \<and>
      MakeArguments w m opts c h = (Returned (Inl e), t2)
      \<longrightarrow>
        ReplayComputation w m opts h0 =
          (Returned (Inl e), [], LoadSnapshotCall m (Inr c) # t2) \<and>
        filter is_execute (LoadSnapshotCall m (Inr c) # t2) = []) \<and>
   (\<forall>h0 ds t2 b s t3.
      LoadSnapshot w h0 m = Inr c \<and> h = h0 @ [LoadSnapshotCall m (Inr c)] \<and>
      MakeArguments w m opts c h = (Returned (Inr ds), t2) \<and>
      InfeedDecision w opts c = (Returned (b, s), t3) \<and>
      JoinPool w (if b then [InfeedTask opts s] else []) (h @ t2 @ t3) = Returned () \<and>
      1 \<le> num_runs opts
      \<longrightarrow>
        filter is_execute (snd (snd (ReplayComputation w m opts h0))) \<noteq> [] \<and>
        (\<forall>e \<in> set (snd (snd (ReplayComputation w m opts h0))).
           is_execute e \<longrightarrow> arguments_of_call e = Some ds))"
proof -
  have fake: "fst (MakeArguments w m opts c h) =
        (case MakeFakeArgumentsOrDie w h c of
           None \<Rightarrow> Aborted ''MakeFakeArgumentsOrDie''
         | Some args \<Rightarrow> Returned (Inr args))"
    if "use_fake_data opts"
    using that by (simp add: MakeArguments_def split: option.splits)
  have recorded: "MakeArguments w m opts c h = MakeArguments w m opts c' h \<and>
      (\<exists>r tr. MakeArguments w m opts c h = (Returned r, tr) \<and>
         (\<forall>ds. r = Inr ds \<longrightarrow>
            length ds = length (arguments m) \<and> length tr = length (arguments m) \<and>
            (\<forall>k < length (arguments m). \<exists>lit. CreateFromProto w (arguments m ! k) = Inr lit \<and>
               tr ! k = TransferToServerCall lit (Inr (ds ! k)))) \<and>
         (\<forall>e. r = Inl e \<longrightarrow>
            (\<exists>p \<in> set (arguments m). CreateFromProto w p = Inl e \<or>
               (\<exists>lit h'. CreateFromProto w p = Inr lit \<and> TransferToServer w h' lit = Inl e))) \<and>
         ((\<forall>p \<in> set (arguments m). \<exists>lit. CreateFromProto w p = Inr lit) \<and>
          (\<forall>h' l. \<exists>d. TransferToServer w h' l = Inr d)
          \<longrightarrow> (\<exists>ds. r = Inr ds)))"
    if rec: "\<not> use_fake_data opts"
  proof -
    from MakeArguments_recorded_path[OF rec, of w m c h c'] obtain r tr where
      same: "MakeArguments w m opts c h = MakeArguments w m opts c' h"
      and ma: "MakeArguments w m opts c h = (Returned r, tr)"
      and ok: "\<forall>ds. r = Inr ds \<longrightarrow>
            length ds = length (arguments m) \<and> length tr = length (arguments m) \<and>
            (\<forall>k < length (arguments m). \<exists>lit. CreateFromProto w (arguments m ! k) = Inr lit \<and>
               tr ! k = TransferToServerCall lit (Inr (ds ! k)))"
      and err: "\<forall>e. r = Inl e \<longrightarrow>
            (\<exists>p \<in> set (arguments m). CreateFromProto w p = Inl e \<or>
               (\<exists>lit h'. CreateFromProto w p = Inr lit \<and> TransferToServer w h' lit = Inl e))"
      by blast
    have total: "\<exists>ds. r = Inr ds"
      if "(\<forall>p \<in> set (arguments m). \<exists>lit. CreateFromProto w p = Inr lit) \<and>
          (\<forall>h' l. \<exists>d. TransferToServer w h' l = Inr d)"
      using MakeArguments_recorded_total[OF rec, of m w c h] that ma by auto
    from same ma ok err total show ?thesis by blast
  qed
  have failure: "ReplayComputation w m opts h0 =
          (Returned (Inl e), [], LoadSnapshotCall m (Inr c) # t2) \<and>
        filter is_execute (LoadSnapshotCall m (Inr c) # t2) = []"
    if "LoadSnapshot w h0 m = Inr c" "h = h0 @ [LoadSnapshotCall m (Inr c)]"
      "MakeArguments w m opts c h = (Returned (Inl e), t2)"
    for h0 e t2
    using ReplayComputation_arguments_error[of w h0 m c opts e t2] that by simp
  have executes: "filter is_execute (snd (snd (ReplayComputation w m opts h0))) \<noteq> [] \<and>
        (\<forall>e \<in> set (snd (snd (ReplayComputation w m opts h0))).
           is_execute e \<longrightarrow> arguments_of_call e = Some ds)"
    if "LoadSnapshot w h0 m = Inr c" "h = h0 @ [LoadSnapshotCall m (Inr c)]"
      "MakeArguments w m opts c h = (Returned (Inr ds), t2)"
      "InfeedDecision w opts c = (Returned (b, s), t3)"
      "JoinPool w (if b then [InfeedTask opts s] else []) (h @ t2 @ t3) = Returned ()"
      "1 \<le> num_runs opts"
    for h0 ds t2 b s t3
    using ReplayComputation_executes_with[of w h0 m c opts ds t2 b s t3] that by simp
  from fake recorded failure executes show ?thesis by blast
qed

theorem MakeArguments_handles_witness:
  "\<not> use_fake_data demo_opts \<and>
   MakeArguments demo_World demo_snapshot demo_opts (XlaComputation demo_module) [] =
     MakeArguments demo_World demo_snapshot demo_opts (XlaComputation two_infeeds_module) [] \<and>
   MakeArguments demo_World demo_snapshot demo_opts (XlaComputation demo_module) [] =
     (Returned (Inr [GlobalData 0]),
      [TransferToServerCall (Literal (Shape ''f32[]'') ''1'') (Inr (GlobalData 0))]) \<and>
   length [GlobalData 0] = length (arguments demo_snapshot) \<and>
   ReplayComputation demo_World
       (demo_snapshot\<lparr>arguments := [LiteralProto (Shape ''f32[]'') []]\<rparr>) demo_opts [] =
     (Returned (Inl ''no data''), [],
      [LoadSnapshotCall (demo_snapshot\<lparr>arguments := [LiteralProto (Shape ''f32[]'') []]\<rparr>)
         (Inr (XlaComputation demo_module))]) \<and>
   filter is_execute (snd (snd (ReplayComputation demo_World
       (demo_snapshot\<lparr>arguments := []\<rparr>) demo_opts []))) \<noteq> [] \<and>
   map arguments_of_call (filter is_execute (snd (snd (ReplayComputation demo_World
       (demo_snapshot\<lparr>arguments := []\<rparr>) demo_opts [])))) = [Some [], Some [], Some []]"
proof -
  have rec: "\<not> use_fake_data demo_opts" by (simp add: demo_opts_def)
  have v: "MakeArguments demo_World demo_snapshot demo_opts (XlaComputation demo_module) [] =
     (Returned (Inr [GlobalData 0]),
      [TransferToServerCall (Literal (Shape ''f32[]'') ''1'') (Inr (GlobalData 0))])"
    by (simp add: MakeArguments_def demo_defs)
  from MakeArguments_handles[of demo_opts demo_World demo_snapshot "XlaComputation demo_module"
      "[]" "XlaComputation two_infeeds_module"] v rec
  have a: "MakeArguments demo_World demo_snapshot demo_opts (XlaComputation demo_module) [] =
     MakeArguments demo_World demo_snapshot demo_opts (XlaComputation two_infeeds_module) []"
    by blast
  let ?bad = "demo_snapshot\<lparr>arguments := [LiteralProto (Shape ''f32[]'') []]\<rparr>"
  let ?c = "XlaComputation demo_module"
  have load_bad: "LoadSnapshot demo_World [] ?bad = Inr ?c"
    by (simp add: demo_defs)
  have margs_bad: "MakeArguments demo_World ?bad demo_opts ?c ([] @ [LoadSnapshotCall ?bad (Inr ?c)])
      = (Returned (Inl ''no data''), [])"
    by (simp add: MakeArguments_def demo_defs)
  from MakeArguments_handles[where opts = demo_opts and w = demo_World and m = ?bad and c = ?c
      and h = "[] @ [LoadSnapshotCall ?bad (Inr ?c)]"] load_bad margs_bad
  have b: "ReplayComputation demo_World ?bad demo_opts [] =
     (Returned (Inl ''no data''), [], [LoadSnapshotCall ?bad (Inr ?c)])"
    by blast
  let ?none = "demo_snapshot\<lparr>arguments := []\<rparr>"
  have load_none: "LoadSnapshot demo_World [] ?none = Inr ?c"
    by (simp add: demo_defs)
  have margs_none: "MakeArguments demo_World ?none demo_opts ?c ([] @ [LoadSnapshotCall ?none (Inr ?c)])
      = (Returned (Inr []), [])"
    by (simp add: MakeArguments_def demo_defs)
  have dec: "InfeedDecision demo_World demo_opts ?c = (Returned (False, default_Shape), [])"
    by (simp add: InfeedDecision_def demo_defs)
  have join: "JoinPool demo_World (if False then [InfeedTask demo_opts default_Shape] else [])
      (([] @ [LoadSnapshotCall ?none (Inr ?c)]) @ [] @ []) = Returned ()"
    by simp
  have runs: "1 \<le> num_runs demo_opts" by (simp add: demo_opts_def)
  note inst = MakeArguments_handles[where opts = demo_opts and w = demo_World and m = ?none
      and c = ?c and h = "[] @ [LoadSnapshotCall ?none (Inr ?c)]"]
  from inst[THEN conjunct2, THEN conjunct2, THEN conjunct2, rule_format,
      of "[]" "[]" "[]" False default_Shape "[]"]
    load_none margs_none dec join runs
  have c: "filter is_execute (snd (snd (ReplayComputation demo_World ?none demo_opts []))) \<noteq> []"
    by simp
  have d: "map arguments_of_call (filter is_execute (snd (snd (ReplayComputation demo_World
       ?none demo_opts [])))) = [Some [], Some [], Some []]"
    by (simp add: ReplayComputation_def MakeArguments_def InfeedDecision_def RunLoop.simps
          RunOptions_def default_Shape_def demo_defs)
  have e: "length [GlobalData 0] = length (arguments demo_snapshot)"
    by (simp add: demo_snapshot_def)
  from rec v a b c d e show ?thesis by blast
qed

theorem no_parameter_count_check:
  "length (parameters (hlo_module (hlo (demo_snapshot\<lparr>arguments := []\<rparr>)))) = 1 \<and>
   length (arguments (demo_snapshot\<lparr>arguments := []\<rparr>)) = 0 \<and>
   ReplayComputation demo_World (demo_snapshot\<lparr>arguments := []\<rparr>) (demo_opts\<lparr>num_runs := 1\<rparr>) [] =
     (Returned (Inr (Some (Literal (Shape ''f32[]'') ''''))), [],
      [LoadSnapshotCall (demo_snapshot\<lparr>arguments := []\<rparr>) (Inr (XlaComputation demo_module)),
       ExecuteAndTransferCall (XlaComputation demo_module) [] \<lparr>xla_hlo_profile = False\<rparr>
         (Inr (Literal (Shape ''f32[]'') '''', \<lparr>compute_time_ns = 5\<rparr>)),
       LogExecutionTook 5])"
  by (simp add: ReplayComputation_def MakeArguments_def InfeedDecision_def RunLoop.simps
        RunOptions_def default_Shape_def demo_defs)

text \<open>
  C6. With \<open>print_result = false\<close>, whatever \<open>num_runs\<close> is, \<open>ReplayComputation\<close> never
  returns a result value and never makes the retrieving call \<open>ExecuteAndTransfer\<close>;
  \<open>RealMain\<close> then prints no result line for any file. When the replay reaches the
  loop, every \<open>Execute\<close> succeeds and the infeed worker, if one is scheduled, passes
  its checks, the replay makes exactly \<open>num_runs\<close> execute calls, each the call
  \<open>Execute\<close> on the loaded computation with the provided arguments and the options
  of its run, and what it returns is the absent result.
\<close>

theorem ReplayComputation_print_result_false:
  assumes np: "\<not> print_result opts"
  shows "(\<forall>l. fst (ReplayComputation w module opts h) \<noteq> Returned (Inr (Some l))) \<and>
     (\<forall>c a eo x. ExecuteAndTransferCall c a eo x
         \<notin> set (snd (snd (ReplayComputation w module opts h)))) \<and>
     (\<forall>a n s t. ResultLine a n s t \<notin> set (fst (snd (RealMainLoop w opts args st h')))) \<and>
     ((\<forall>h c a eo. \<exists>x. Execute w h c a eo = Inr x) \<and>
      LoadSnapshot w h module = Inr computation \<and>
      MakeArguments w module opts computation (h @ [LoadSnapshotCall module (Inr computation)])
        = (Returned (Inr xs), t2) \<and>
      InfeedDecision w opts computation = (Returned (b, s), t3) \<and>
      JoinPool w (if b then [InfeedTask opts s] else [])
        (h @ LoadSnapshotCall module (Inr computation) # t2 @ t3) = Returned ()
      \<longrightarrow>
        fst (ReplayComputation w module opts h) = Returned (Inr None) \<and>
        length (filter is_execute (snd (snd (ReplayComputation w module opts h))))
          = nat (num_runs opts) \<and>
        (\<forall>k < nat (num_runs opts). \<exists>d p.
           filter is_execute (snd (snd (ReplayComputation w module opts h))) ! k =
             ExecuteCall computation xs (RunOptions w opts (int k)) (Inr (d, p))))"
proof -
  obtain out ts tr where rc: "ReplayComputation w module opts h = (out, ts, tr)"
    by (cases "ReplayComputation w module opts h") auto
  obtain r lines ts' tr' where rm: "RealMainLoop w opts args st h' = (r, lines, ts', tr')"
    by (cases "RealMainLoop w opts args st h'") auto
  have a: "\<forall>l. fst (ReplayComputation w module opts h) \<noteq> Returned (Inr (Some l))"
    using ReplayComputation_no_result[OF rc np] rc by simp
  have b: "\<forall>c a eo x. ExecuteAndTransferCall c a eo x
         \<notin> set (snd (snd (ReplayComputation w module opts h)))"
    using ReplayComputation_no_transfer[OF rc np] rc by simp
  have c: "\<forall>a n s t. ResultLine a n s t \<notin> set (fst (snd (RealMainLoop w opts args st h')))"
    using RealMainLoop_no_result_line[OF np rm] rm by simp
  have d: "fst (ReplayComputation w module opts h) = Returned (Inr None) \<and>
        length (filter is_execute (snd (snd (ReplayComputation w module opts h))))
          = nat (num_runs opts) \<and>
        (\<forall>k < nat (num_runs opts). \<exists>d p.
           filter is_execute (snd (snd (ReplayComputation w module opts h))) ! k =
             ExecuteCall computation xs (RunOptions w opts (int k)) (Inr (d, p)))"
    if ex: "\<forall>h c a eo. \<exists>x. Execute w h c a eo = Inr x"
      and load: "LoadSnapshot w h module = Inr computation"
      and margs: "MakeArguments w module opts computation
          (h @ [LoadSnapshotCall module (Inr computation)]) = (Returned (Inr xs), t2)"
      and dec: "InfeedDecision w opts computation = (Returned (b, s), t3)"
      and join: "JoinPool w (if b then [InfeedTask opts s] else [])
          (h @ LoadSnapshotCall module (Inr computation) # t2 @ t3) = Returned ()"
  proof -
    from RunLoop_Execute_calls[OF np ex, where c = computation and a = xs and i = 0
        and res = None and h = "h @ LoadSnapshotCall module (Inr computation) # t2 @ t3"]
    obtain t4 where
      run: "RunLoop w opts computation xs 0 None
        (h @ LoadSnapshotCall module (Inr computation) # t2 @ t3) = (Inr None, t4)"
      and len: "length (filter is_execute t4) = nat (num_runs opts)"
      and each: "\<forall>k < nat (num_runs opts). \<exists>d p.
          filter is_execute t4 ! k = ExecuteCall computation xs (RunOptions w opts (int k)) (Inr (d, p))"
      by auto
    have f2: "filter is_execute t2 = []"
      using MakeArguments_events[OF margs] by (intro no_execute_events) blast
    have f3: "filter is_execute t3 = []"
      using InfeedDecision_events[OF dec] by (intro no_execute_events) fastforce
    from ReplayComputation_loop[OF load margs dec run join] len each f2 f3
    show ?thesis by simp
  qed
  from a b c d show ?thesis by blast
qed

theorem ReplayComputation_print_result_false_witness:
  "\<not> print_result (demo_opts\<lparr>print_result := False\<rparr>) \<and>
   ReplayComputation demo_World demo_snapshot (demo_opts\<lparr>print_result := False\<rparr>) [] =
     (Returned (Inr None), [],
      [LoadSnapshotCall demo_snapshot (Inr (XlaComputation demo_module)),
       TransferToServerCall (Literal (Shape ''f32[]'') ''1'') (Inr (GlobalData 1)),
       ExecuteCall (XlaComputation demo_module) [GlobalData 1]
         \<lparr>xla_hlo_profile = False\<rparr> (Inr (GlobalData 2, \<lparr>compute_time_ns = 5\<rparr>)),
       LogExecutionTook 5,
       ExecuteCall (XlaComputation demo_module) [GlobalData 1]
         \<lparr>xla_hlo_profile = False\<rparr> (Inr (GlobalData 4, \<lparr>compute_time_ns = 5\<rparr>)),
       LogExecutionTook 5,
       ExecuteCall (XlaComputation demo_module) [GlobalData 1]
         \<lparr>xla_hlo_profile = False\<rparr> (Inr (GlobalData 6, \<lparr>compute_time_ns = 5\<rparr>)),
       LogExecutionTook 5]) \<and>
   length (filter is_execute (snd (snd (ReplayComputation demo_World demo_snapshot
       (demo_opts\<lparr>print_result := False\<rparr>) [])))) = 3 \<and>
   (\<forall>c a eo x. ExecuteAndTransferCall c a eo x
      \<notin> set (snd (snd (ReplayComputation demo_World demo_snapshot
                 (demo_opts\<lparr>print_result := False\<rparr>) [])))) \<and>
   (\<forall>a n s t. ResultLine a n s t
      \<notin> set (fst (snd (RealMainLoop demo_World (demo_opts\<lparr>print_result := False\<rparr>)
                 [''a''] EXIT_SUCCESS []))))"
proof -
  let ?opts = "demo_opts\<lparr>print_result := False\<rparr>"
  let ?t2 = "[TransferToServerCall (Literal (Shape ''f32[]'') ''1'') (Inr (GlobalData 1))]"
  have np: "\<not> print_result ?opts" by simp
  have ex: "\<forall>h c a eo. \<exists>x. Execute demo_World h c a eo = Inr x"
    by (simp add: demo_World_def)
  have load: "LoadSnapshot demo_World [] demo_snapshot = Inr (XlaComputation demo_module)"
    by (simp add: demo_defs)
  have margs: "MakeArguments demo_World demo_snapshot ?opts (XlaComputation demo_module)
       ([] @ [LoadSnapshotCall demo_snapshot (Inr (XlaComputation demo_module))]) =
     (Returned (Inr [GlobalData 1]), ?t2)"
    by (simp add: MakeArguments_def demo_defs)
  have dec: "InfeedDecision demo_World ?opts (XlaComputation demo_module) =
     (Returned (False, default_Shape), [])"
    by (simp add: InfeedDecision_def demo_defs)
  have join: "JoinPool demo_World (if False then [InfeedTask ?opts default_Shape] else [])
      ([] @ LoadSnapshotCall demo_snapshot (Inr (XlaComputation demo_module)) # ?t2 @ [])
      = Returned ()"
    by simp
  have n3: "nat (num_runs ?opts) = 3" by (simp add: demo_opts_def)
  have whole: "ReplayComputation demo_World demo_snapshot ?opts [] =
     (Returned (Inr None), [],
      [LoadSnapshotCall demo_snapshot (Inr (XlaComputation demo_module)),
       TransferToServerCall (Literal (Shape ''f32[]'') ''1'') (Inr (GlobalData 1)),
       ExecuteCall (XlaComputation demo_module) [GlobalData 1]
         \<lparr>xla_hlo_profile = False\<rparr> (Inr (GlobalData 2, \<lparr>compute_time_ns = 5\<rparr>)),
       LogExecutionTook 5,
       ExecuteCall (XlaComputation demo_module) [GlobalData 1]
         \<lparr>xla_hlo_profile = False\<rparr> (Inr (GlobalData 4, \<lparr>compute_time_ns = 5\<rparr>)),
       LogExecutionTook 5,
       ExecuteCall (XlaComputation demo_module) [GlobalData 1]
         \<lparr>xla_hlo_profile = False\<rparr> (Inr (GlobalData 6, \<lparr>compute_time_ns = 5\<rparr>)),
       LogExecutionTook 5])"
    by (simp add: ReplayComputation_def MakeArguments_def InfeedDecision_def RunLoop.simps
          RunOptions_def default_Shape_def demo_defs)
  note inst = ReplayComputation_print_result_false[OF np, where w = demo_World
      and module = demo_snapshot and h = "[]" and args = "[''a'']" and st = EXIT_SUCCESS
      and h' = "[]" and computation = "XlaComputation demo_module" and xs = "[GlobalData 1]"
      and ?t2.0 = ?t2 and b = False and s = default_Shape and ?t3.0 = "[]"]
  from inst ex load margs dec join
  have "length (filter is_execute (snd (snd (ReplayComputation demo_World demo_snapshot ?opts []))))
      = nat (num_runs ?opts)"
    by blast
  with inst np whole n3 show ?thesis by simp
qed

text \<open>
  C7. With \<open>use_fake_data = true\<close> the arguments provided, and the calls made to
  provide them, are the same for any two snapshots: nothing of the snapshot, its
  recorded arguments included, is read.
\<close>

theorem MakeArguments_fake_data_independent:
  "use_fake_data opts \<Longrightarrow> MakeArguments w m1 opts c h = MakeArguments w m2 opts c h"
  by (simp add: MakeArguments_def)

theorem MakeArguments_fake_data_independent_witness:
  "use_fake_data (demo_opts\<lparr>use_fake_data := True\<rparr>) \<and>
   MakeArguments demo_World demo_snapshot (demo_opts\<lparr>use_fake_data := True\<rparr>)
       (XlaComputation demo_module) [] =
     MakeArguments demo_World (demo_snapshot\<lparr>arguments := []\<rparr>) (demo_opts\<lparr>use_fake_data := True\<rparr>)
       (XlaComputation demo_module) [] \<and>
   MakeArguments demo_World demo_snapshot (demo_opts\<lparr>use_fake_data := True\<rparr>)
       (XlaComputation demo_module) [] =
     (Returned (Inr [GlobalData 0]),
      [MakeFakeArgumentsOrDieCall (XlaComputation demo_module) (Some [GlobalData 0])])"
proof -
  have f: "use_fake_data (demo_opts\<lparr>use_fake_data := True\<rparr>)" by simp
  have v: "MakeArguments demo_World demo_snapshot (demo_opts\<lparr>use_fake_data := True\<rparr>)
       (XlaComputation demo_module) [] =
     (Returned (Inr [GlobalData 0]),
      [MakeFakeArgumentsOrDieCall (XlaComputation demo_module) (Some [GlobalData 0])])"
    by (simp add: MakeArguments_def demo_defs)
  from MakeArguments_fake_data_independent[OF f, of demo_World demo_snapshot
      "XlaComputation demo_module" "[]" "demo_snapshot\<lparr>arguments := []\<rparr>"] f v
  show ?thesis by simp
qed

text \<open>
  C8. When the replay of a file returns a result value, \<open>RealMain\<close> prints for that
  file the line of the computed result (file, module name, shape, text) and, right
  after it, the \<open>was\<close> line of the recorded result (shape, text) when the snapshot
  has one, which it first turns into a literal, and nothing more when it has
  none: in every report printed to its end the \<open>was\<close> line is there exactly when
  the snapshot has a recorded result. Whether the two values agree changes
  neither the lines nor the exit status: the loop goes on to the other files with
  the status it had.
\<close>



theorem RealMain_report:
  assumes read: "ReadBinaryProto w arg = Inr snapshot"
    and rc: "ReplayComputation w snapshot opts (h @ [ReadBinaryProtoCall arg (Inr snapshot)])
              = (Returned (Inr (Some lit)), ts1, t1)"
    and rest: "RealMainLoop w opts rest st (h @ ReadBinaryProtoCall arg (Inr snapshot) # t1)
              = (r, out, ts, tr)"
  shows "(result snapshot = None \<longrightarrow>
            RealMainLoop w opts (arg # rest) st h =
              (r,
               ResultLine arg (name (hlo_module (hlo snapshot)))
                   (HumanString w (literal_shape lit)) (ToString lit) # out,
               ts1 @ ts, ReadBinaryProtoCall arg (Inr snapshot) # t1 @ tr)) \<and>
         (\<forall>p literal. result snapshot = Some p \<and> CreateFromProto w p = Inr literal \<longrightarrow>
            RealMainLoop w opts (arg # rest) st h =
              (r,
               ResultLine arg (name (hlo_module (hlo snapshot)))
                   (HumanString w (literal_shape lit)) (ToString lit)
                 # WasLine (HumanString w (proto_shape p)) (ToString literal) # out,
               ts1 @ ts, ReadBinaryProtoCall arg (Inr snapshot) # t1 @ tr)) \<and>
         (\<forall>st' lines ts' tr'.
            RealMainLoop w opts [arg] st h = (Returned st', lines, ts', tr') \<longrightarrow>
              st' = st \<and>
              hd lines = ResultLine arg (name (hlo_module (hlo snapshot)))
                           (HumanString w (literal_shape lit)) (ToString lit) \<and>
              ((\<exists>s t. WasLine s t \<in> set lines) \<longleftrightarrow> result snapshot \<noteq> None))"
proof -
  have a: "result snapshot = None \<longrightarrow>
            RealMainLoop w opts (arg # rest) st h =
              (r,
               ResultLine arg (name (hlo_module (hlo snapshot)))
                   (HumanString w (literal_shape lit)) (ToString lit) # out,
               ts1 @ ts, ReadBinaryProtoCall arg (Inr snapshot) # t1 @ tr)"
    using read rc rest by (simp add: Let_def)
  have b: "\<forall>p literal. result snapshot = Some p \<and> CreateFromProto w p = Inr literal \<longrightarrow>
            RealMainLoop w opts (arg # rest) st h =
              (r,
               ResultLine arg (name (hlo_module (hlo snapshot)))
                   (HumanString w (literal_shape lit)) (ToString lit)
                 # WasLine (HumanString w (proto_shape p)) (ToString literal) # out,
               ts1 @ ts, ReadBinaryProtoCall arg (Inr snapshot) # t1 @ tr)"
    using read rc rest by (simp add: Let_def)
  from a b RealMainLoop_report_lines[OF read rc] show ?thesis by blast
qed

theorem RealMain_report_witness:
  "RealMain demo_World (demo_opts\<lparr>num_runs := 1\<rparr>) [''a''] =
     (Returned EXIT_SUCCESS,
      [ResultLine ''a'' ''m'' ''f32[]'' '''', WasLine ''f32[]'' ''2''],
      [],
      [ReadBinaryProtoCall ''a'' (Inr demo_snapshot),
       LoadSnapshotCall demo_snapshot (Inr (XlaComputation demo_module)),
       TransferToServerCall (Literal (Shape ''f32[]'') ''1'') (Inr (GlobalData 2)),
       ExecuteAndTransferCall (XlaComputation demo_module) [GlobalData 2]
         \<lparr>xla_hlo_profile = False\<rparr> (Inr (Literal (Shape ''f32[]'') '''', \<lparr>compute_time_ns = 5\<rparr>)),
       LogExecutionTook 5,
       DestroyLocalInstancesCall]) \<and>
   map render [ResultLine ''a'' ''m'' ''f32[]'' '''', WasLine ''f32[]'' ''2''] =
     [(False, ''a: m :: f32[]:'' @ [CHR 0x0A]), (False, ''was f32[]:2'' @ [CHR 0x0A])] \<and>
   fst (snd (RealMain demo_World (demo_opts\<lparr>num_runs := 1\<rparr>) [''two''])) =
     [ResultLine ''two'' ''t'' ''f32[]'' '''']"
proof -
  let ?opts = "demo_opts\<lparr>num_runs := 1\<rparr>"
  let ?lit = "Literal (Shape ''f32[]'') ''''"
  have read: "ReadBinaryProto demo_World ''a'' = Inr demo_snapshot"
    by (simp add: demo_World_def)
  have rc: "ReplayComputation demo_World demo_snapshot ?opts
       ([] @ [ReadBinaryProtoCall ''a'' (Inr demo_snapshot)]) =
     (Returned (Inr (Some ?lit)), [],
      [LoadSnapshotCall demo_snapshot (Inr (XlaComputation demo_module)),
       TransferToServerCall (Literal (Shape ''f32[]'') ''1'') (Inr (GlobalData 2)),
       ExecuteAndTransferCall (XlaComputation demo_module) [GlobalData 2]
         \<lparr>xla_hlo_profile = False\<rparr> (Inr (?lit, \<lparr>compute_time_ns = 5\<rparr>)),
       LogExecutionTook 5])"
    by (simp add: ReplayComputation_def MakeArguments_def InfeedDecision_def RunLoop.simps
          RunOptions_def default_Shape_def demo_defs)
  have rest: "RealMainLoop demo_World ?opts [] EXIT_SUCCESS
       ([] @ ReadBinaryProtoCall ''a'' (Inr demo_snapshot) #
        [LoadSnapshotCall demo_snapshot (Inr (XlaComputation demo_module)),
         TransferToServerCall (Literal (Shape ''f32[]'') ''1'') (Inr (GlobalData 2)),
         ExecuteAndTransferCall (XlaComputation demo_module) [GlobalData 2]
           \<lparr>xla_hlo_profile = False\<rparr> (Inr (?lit, \<lparr>compute_time_ns = 5\<rparr>)),
         LogExecutionTook 5]) = (Returned EXIT_SUCCESS, [], [], [])"
    by simp
  have res: "result demo_snapshot = Some (LiteralProto (Shape ''f32[]'') ''2'')"
    by (simp add: demo_snapshot_def)
  have lit: "CreateFromProto demo_World (LiteralProto (Shape ''f32[]'') ''2'') =
      Inr (Literal (Shape ''f32[]'') ''2'')"
    by (simp add: demo_World_def)
  from RealMain_report[OF read rc rest] res lit
  have "RealMainLoop demo_World ?opts [''a''] EXIT_SUCCESS [] =
     (Returned EXIT_SUCCESS,
      [ResultLine ''a'' (name (hlo_module (hlo demo_snapshot)))
         (HumanString demo_World (literal_shape ?lit)) (ToString ?lit),
       WasLine (HumanString demo_World (proto_shape (LiteralProto (Shape ''f32[]'') ''2'')))
         (ToString (Literal (Shape ''f32[]'') ''2''))],
      [],
      [ReadBinaryProtoCall ''a'' (Inr demo_snapshot),
       LoadSnapshotCall demo_snapshot (Inr (XlaComputation demo_module)),
       TransferToServerCall (Literal (Shape ''f32[]'') ''1'') (Inr (GlobalData 2)),
       ExecuteAndTransferCall (XlaComputation demo_module) [GlobalData 2]
         \<lparr>xla_hlo_profile = False\<rparr> (Inr (?lit, \<lparr>compute_time_ns = 5\<rparr>)),
       LogExecutionTook 5])"
    by simp
  then have a: "RealMain demo_World ?opts [''a''] =
     (Returned EXIT_SUCCESS,
      [ResultLine ''a'' ''m'' ''f32[]'' '''', WasLine ''f32[]'' ''2''],
      [],
      [ReadBinaryProtoCall ''a'' (Inr demo_snapshot),
       LoadSnapshotCall demo_snapshot (Inr (XlaComputation demo_module)),
       TransferToServerCall (Literal (Shape ''f32[]'') ''1'') (Inr (GlobalData 2)),
       ExecuteAndTransferCall (XlaComputation demo_module) [GlobalData 2]
         \<lparr>xla_hlo_profile = False\<rparr> (Inr (?lit, \<lparr>compute_time_ns = 5\<rparr>)),
       LogExecutionTook 5,
       DestroyLocalInstancesCall])"
    by (simp add: RealMain_def demo_defs)
  have b: "map render [ResultLine ''a'' ''m'' ''f32[]'' '''', WasLine ''f32[]'' ''2''] =
     [(False, ''a: m :: f32[]:'' @ [CHR 0x0A]), (False, ''was f32[]:2'' @ [CHR 0x0A])]"
    by simp
  have c: "fst (snd (RealMain demo_World ?opts [''two''])) =
     [ResultLine ''two'' ''t'' ''f32[]'' '''']"
    by (simp add: RealMain_def ReplayComputation_def MakeArguments_def InfeedDecision_def
          RunLoop.simps RunOptions_def default_Shape_def demo_World_def demo_opts_def
          two_infeeds_snapshot_def two_infeeds_module_def)
  from a b c show ?thesis by simp
qed

text \<open>
  C9. A non-empty \<open>fake_infeed_shape\<close> that does not parse: once the snapshot is
  loaded and the arguments are provided, the replay ends in the fatal check, not in
  an error status, and \<open>RealMain\<close> stops there, the files after it unread.
\<close>

theorem ReplayComputation_bad_shape_aborts:
  assumes nonempty: "fake_infeed_shape opts \<noteq> []"
    and parse: "ParseShapeString w (fake_infeed_shape opts) = Inl e"
    and load: "LoadSnapshot w h module = Inr computation"
    and margs: "MakeArguments w module opts computation
                 (h @ [LoadSnapshotCall module (Inr computation)]) = (Returned (Inr args), t2)"
  shows "ReplayComputation w module opts h =
           (Aborted e, [], LoadSnapshotCall module (Inr computation) # t2) \<and>
         (\<forall>h0 arg rest st.
            ReadBinaryProto w arg = Inr module \<and> h = h0 @ [ReadBinaryProtoCall arg (Inr module)]
            \<longrightarrow> RealMainLoop w opts (arg # rest) st h0 =
                  (Aborted e, [], [],
                   ReadBinaryProtoCall arg (Inr module)
                     # LoadSnapshotCall module (Inr computation) # t2))"
proof -
  have dec: "InfeedDecision w opts computation = (Aborted e, [])"
    using nonempty parse by (simp add: InfeedDecision_def)
  have whole: "ReplayComputation w module opts h =
      (Aborted e, [], LoadSnapshotCall module (Inr computation) # t2)"
    using load margs dec by (simp add: ReplayComputation_def)
  then show ?thesis by (auto simp: Let_def)
qed

theorem ReplayComputation_bad_shape_aborts_witness:
  "fake_infeed_shape (demo_opts\<lparr>fake_infeed_shape := ''f32[''\<rparr>) \<noteq> [] \<and>
   ParseShapeString demo_World (fake_infeed_shape (demo_opts\<lparr>fake_infeed_shape := ''f32[''\<rparr>))
     = Inl ''bad shape'' \<and>
   RealMainLoop demo_World (demo_opts\<lparr>fake_infeed_shape := ''f32[''\<rparr>) [''a'', ''two'']
       EXIT_SUCCESS [] =
     (Aborted ''bad shape'', [], [],
      [ReadBinaryProtoCall ''a'' (Inr demo_snapshot),
       LoadSnapshotCall demo_snapshot (Inr (XlaComputation demo_module)),
       TransferToServerCall (Literal (Shape ''f32[]'') ''1'') (Inr (GlobalData 2))])"
proof -
  let ?opts = "demo_opts\<lparr>fake_infeed_shape := ''f32[''\<rparr>"
  let ?h = "[ReadBinaryProtoCall ''a'' (Inr demo_snapshot)]"
  have nonempty: "fake_infeed_shape ?opts \<noteq> []" by simp
  have parse: "ParseShapeString demo_World (fake_infeed_shape ?opts) = Inl ''bad shape''"
    by (simp add: demo_World_def)
  have read: "ReadBinaryProto demo_World ''a'' = Inr demo_snapshot"
    by (simp add: demo_World_def)
  have load: "LoadSnapshot demo_World ?h demo_snapshot = Inr (XlaComputation demo_module)"
    by (simp add: demo_defs)
  have margs: "MakeArguments demo_World demo_snapshot ?opts (XlaComputation demo_module)
       (?h @ [LoadSnapshotCall demo_snapshot (Inr (XlaComputation demo_module))]) =
     (Returned (Inr [GlobalData 2]),
      [TransferToServerCall (Literal (Shape ''f32[]'') ''1'') (Inr (GlobalData 2))])"
    by (simp add: MakeArguments_def demo_defs)
  from ReplayComputation_bad_shape_aborts[OF nonempty parse load margs] read nonempty parse
  show ?thesis by simp
qed

text \<open>
  C10. \<open>num_runs \<le> 0\<close> is accepted: no replay makes an execute call or returns a
  result value, and a replay that reaches the loop, and whose infeed worker, if one
  is scheduled, passes its checks, returns OK with an absent result; \<open>RealMain\<close> then
  prints no line for that file and goes on with the exit status it had.
\<close>

theorem ReplayComputation_no_runs:
  assumes zero: "num_runs opts \<le> 0"
  shows "filter is_execute (snd (snd (ReplayComputation w module opts h))) = [] \<and>
     (\<forall>l. fst (ReplayComputation w module opts h) \<noteq> Returned (Inr (Some l))) \<and>
     (LoadSnapshot w h module = Inr computation \<and>
      MakeArguments w module opts computation (h @ [LoadSnapshotCall module (Inr computation)])
        = (Returned (Inr args), t2) \<and>
      InfeedDecision w opts computation = (Returned (b, s), t3) \<and>
      JoinPool w (if b then [InfeedTask opts s] else [])
        (h @ LoadSnapshotCall module (Inr computation) # t2 @ t3) = Returned ()
      \<longrightarrow>
        ReplayComputation w module opts h =
           (Returned (Inr None), (if b then [InfeedTask opts s] else []),
            LoadSnapshotCall module (Inr computation) # t2 @ t3) \<and>
        (\<forall>h0 arg rest st.
            ReadBinaryProto w arg = Inr module \<and> h = h0 @ [ReadBinaryProtoCall arg (Inr module)]
            \<longrightarrow> fst (RealMainLoop w opts (arg # rest) st h0) =
                  fst (RealMainLoop w opts rest st
                         (h @ LoadSnapshotCall module (Inr computation) # t2 @ t3)) \<and>
                fst (snd (RealMainLoop w opts (arg # rest) st h0)) =
                  fst (snd (RealMainLoop w opts rest st
                         (h @ LoadSnapshotCall module (Inr computation) # t2 @ t3)))))"
proof -
  obtain out ts tr where rc: "ReplayComputation w module opts h = (out, ts, tr)"
    by (cases "ReplayComputation w module opts h") auto
  have a: "filter is_execute (snd (snd (ReplayComputation w module opts h))) = []"
    using ReplayComputation_no_runs_any[OF zero rc] rc by simp
  have b: "\<forall>l. fst (ReplayComputation w module opts h) \<noteq> Returned (Inr (Some l))"
    using ReplayComputation_no_runs_any[OF zero rc] rc by simp
  from a b ReplayComputation_no_runs_reached[OF zero, where w = w and h = h and module = module
      and computation = computation and args = args and ?t2.0 = t2 and b = b and s = s
      and ?t3.0 = t3]
  show ?thesis by blast
qed

theorem ReplayComputation_no_runs_witness:
  "num_runs (demo_opts\<lparr>num_runs := 0, generate_fake_infeed := True\<rparr>) \<le> 0 \<and>
   ReplayComputation demo_World demo_snapshot
       (demo_opts\<lparr>num_runs := 0, generate_fake_infeed := True\<rparr>)
       [ReadBinaryProtoCall ''a'' (Inr demo_snapshot)] =
     (Returned (Inr None),
      [InfeedTask (demo_opts\<lparr>num_runs := 0, generate_fake_infeed := True\<rparr>) (Shape ''f32[2]'')],
      [LoadSnapshotCall demo_snapshot (Inr (XlaComputation demo_module)),
       TransferToServerCall (Literal (Shape ''f32[]'') ''1'') (Inr (GlobalData 2)),
       LogFakeInfeedShape ''f32[2]'']) \<and>
   RealMain demo_World (demo_opts\<lparr>num_runs := 0, generate_fake_infeed := True\<rparr>) [''a''] =
     (Returned EXIT_SUCCESS, [],
      [InfeedTask (demo_opts\<lparr>num_runs := 0, generate_fake_infeed := True\<rparr>) (Shape ''f32[2]'')],
      [ReadBinaryProtoCall ''a'' (Inr demo_snapshot),
       LoadSnapshotCall demo_snapshot (Inr (XlaComputation demo_module)),
       TransferToServerCall (Literal (Shape ''f32[]'') ''1'') (Inr (GlobalData 2)),
       LogFakeInfeedShape ''f32[2]'',
       DestroyLocalInstancesCall])"
proof -
  let ?opts = "demo_opts\<lparr>num_runs := 0, generate_fake_infeed := True\<rparr>"
  let ?h = "[ReadBinaryProtoCall ''a'' (Inr demo_snapshot)]"
  let ?t2 = "[TransferToServerCall (Literal (Shape ''f32[]'') ''1'') (Inr (GlobalData 2))]"
  let ?t3 = "[LogFakeInfeedShape ''f32[2]'']"
  have zero: "num_runs ?opts \<le> 0" by simp
  have read: "ReadBinaryProto demo_World ''a'' = Inr demo_snapshot"
    by (simp add: demo_World_def)
  have load: "LoadSnapshot demo_World ?h demo_snapshot = Inr (XlaComputation demo_module)"
    by (simp add: demo_defs)
  have margs: "MakeArguments demo_World demo_snapshot ?opts (XlaComputation demo_module)
       (?h @ [LoadSnapshotCall demo_snapshot (Inr (XlaComputation demo_module))]) =
     (Returned (Inr [GlobalData 2]), ?t2)"
    by (simp add: MakeArguments_def demo_defs)
  have dec: "InfeedDecision demo_World ?opts (XlaComputation demo_module) =
     (Returned (True, Shape ''f32[2]''), ?t3)"
    by (simp add: InfeedDecision_def default_Shape_def demo_defs)
  have gen: "MakeFakeLiteral demo_World (Shape ''f32[2]'') = Inr (Literal (Shape ''f32[2]'') ''0'')"
    by (simp add: demo_World_def)
  have push: "\<forall>h'. TransferToInfeed demo_World h' (Literal (Shape ''f32[2]'') ''0'') = OK"
    by (simp add: demo_World_def)
  have join: "JoinPool demo_World (if True then [InfeedTask ?opts (Shape ''f32[2]'')] else [])
      (?h @ LoadSnapshotCall demo_snapshot (Inr (XlaComputation demo_module)) # ?t2 @ ?t3)
      = Returned ()"
    using gen by (simp add: InfeedWorker_def InfeedLoop_ok[OF push])
  note inst = ReplayComputation_no_runs[OF zero, where w = demo_World and module = demo_snapshot
      and h = ?h and computation = "XlaComputation demo_module" and args = "[GlobalData 2]"
      and ?t2.0 = ?t2 and b = True and s = "Shape ''f32[2]''" and ?t3.0 = ?t3]
  from inst load margs dec join have rc: "ReplayComputation demo_World demo_snapshot ?opts ?h =
     (Returned (Inr None), [InfeedTask ?opts (Shape ''f32[2]'')],
      [LoadSnapshotCall demo_snapshot (Inr (XlaComputation demo_module)),
       TransferToServerCall (Literal (Shape ''f32[]'') ''1'') (Inr (GlobalData 2)),
       LogFakeInfeedShape ''f32[2]''])"
    by simp
  have "RealMainLoop demo_World ?opts [''a''] EXIT_SUCCESS [] =
     (Returned EXIT_SUCCESS, [], [InfeedTask ?opts (Shape ''f32[2]'')],
      [ReadBinaryProtoCall ''a'' (Inr demo_snapshot),
       LoadSnapshotCall demo_snapshot (Inr (XlaComputation demo_module)),
       TransferToServerCall (Literal (Shape ''f32[]'') ''1'') (Inr (GlobalData 2)),
       LogFakeInfeedShape ''f32[2]''])"
    using read rc by simp
  then have "RealMain demo_World ?opts [''a''] =
     (Returned EXIT_SUCCESS, [], [InfeedTask ?opts (Shape ''f32[2]'')],
      [ReadBinaryProtoCall ''a'' (Inr demo_snapshot),
       LoadSnapshotCall demo_snapshot (Inr (XlaComputation demo_module)),
       TransferToServerCall (Literal (Shape ''f32[]'') ''1'') (Inr (GlobalData 2)),
       LogFakeInfeedShape ''f32[2]'',
       DestroyLocalInstancesCall])"
    by (simp add: RealMain_def)
  with zero rc show ?thesis by simp
qed

end
